theory Spec2Isabelle
  imports Main
begin

section \<open>The webhook processor of gatsby-source-kontent\<close>

text \<open>
  A shallow embedding of \<^verbatim>\<open>packages/gatsby-source-kontent/src/webhookProcessor.ts\<close>.
  The asynchronous functions are run to completion one after the other, so each of them is a
  function from the state of the host (\<open>api\<close>) to an outcome: either the value returned
  together with the new state, or the error thrown together with the state at the throw.
\<close>

subsection \<open>Values of the inbound event\<close>

text \<open>
  The fields of the event body are read without any check of their type. The model keeps
  the three shapes the code distinguishes: a missing property (\<open>JUndefined\<close>), an explicit
  \<^verbatim>\<open>null\<close> and a string.
\<close>

datatype jsval = JUndefined | JNull | JString string

definition truthy :: "jsval \<Rightarrow> bool" where
  "truthy v = (case v of JString s \<Rightarrow> s \<noteq> [] | _ \<Rightarrow> False)"

text \<open>\<^verbatim>\<open>xs.includes(v)\<close> for an array of strings.\<close>

definition includes_js :: "string list \<Rightarrow> jsval \<Rightarrow> bool" where
  "includes_js xs v = (case v of JString s \<Rightarrow> s \<in> set xs | _ \<Rightarrow> False)"

text \<open>A value placed in a template literal.\<close>

definition toTemplateString :: "jsval \<Rightarrow> string" where
  "toTemplateString v =
     (case v of JUndefined \<Rightarrow> ''undefined'' | JNull \<Rightarrow> ''null'' | JString s \<Rightarrow> s)"

text \<open>\<^verbatim>\<open>s.startsWith(p)\<close> and \<^verbatim>\<open>s.substring(i, j)\<close> for \<open>i \<le> j\<close>.\<close>

definition startsWith :: "string \<Rightarrow> string \<Rightarrow> bool" where
  "startsWith s p = (take (length p) s = p)"

definition substring :: "string \<Rightarrow> nat \<Rightarrow> nat \<Rightarrow> string" where
  "substring s i j = take (j - i) (drop i s)"

record webhook_item =
  item_id :: jsval
  item_language :: jsval

text \<open>
  \<^verbatim>\<open>data.items\<close> is of unknown shape too. The code calls \<^verbatim>\<open>every\<close> on it, reads
  its entry \<^verbatim>\<open>0\<close> and its \<^verbatim>\<open>length\<close>, and reads \<^verbatim>\<open>language\<close> and \<^verbatim>\<open>id\<close> of
  its entries. So the model keeps: a missing or \<^verbatim>\<open>null\<close> property (\<open>NoItems\<close>); an
  array, whose entries are \<^verbatim>\<open>null\<close> or \<^verbatim>\<open>undefined\<close> (\<open>None\<close>) or a value with
  the two properties (an entry that is no object has neither); and any other value, which
  has no method \<^verbatim>\<open>every\<close> and of which only the entry \<^verbatim>\<open>0\<close> matters
  (\<open>NotArray\<close>).
\<close>

datatype js_items =
    NoItems
  | NotArray "webhook_item option"
  | ItemsArray "webhook_item option list"

record webhook_data =
  items :: js_items

record webhook_message =
  api_name :: jsval
  project_id :: jsval
  operation :: jsval
  message_type :: jsval

record webhook_body =
  data :: "webhook_data option"
  message :: "webhook_message option"

subsection \<open>Content items, nodes and the host\<close>

record item_system =
  system_id :: string
  system_codename :: string
  system_language :: string
  system_type :: string

record element =
  element_type :: string
  modular_content :: "string list"

record kontent_item =
  system :: item_system
  elements :: "(string \<times> element) list"
  item_preferred_language :: "string option"

text \<open>The answer of \<^verbatim>\<open>client.loadKontentItem\<close>: \<open>item\<close> is \<open>None\<close> for \<^verbatim>\<open>undefined\<close>.\<close>

record load_result =
  item :: "kontent_item option"
  modularKontent :: "(string \<times> kontent_item) list"

text \<open>
  The strings from which node ids are made, and the ids. The string of an item node is
  determined by the id of the item and the language and determines both; other nodes
  (taxonomies, types) have other strings.
\<close>

datatype node_string = ItemNodeString string string | OtherNodeString string

datatype node_id = NodeId node_string

text \<open>
  Modelled from the spec: \<^verbatim>\<open>getKontentItemNodeStringForId\<close> of \<^verbatim>\<open>naming.ts\<close> is not in
  the source. The identity of a local node is "deterministic and derived from (itemId,
  requestedLanguage)" (\<^verbatim>\<open>idFor(itemId, language) -> NodeId\<close>), with "at most one local
  node per (itemId, requestedLanguage) pair".
\<close>

definition getKontentItemNodeStringForId :: "string \<Rightarrow> string \<Rightarrow> node_string" where
  "getKontentItemNodeStringForId i preferredLanguage = ItemNodeString i preferredLanguage"

text \<open>
  The host's \<^verbatim>\<open>createNodeId\<close>, the second half of \<^verbatim>\<open>idFor\<close>: a hash, taken to be
  injective.
\<close>

definition createNodeId :: "node_string \<Rightarrow> node_id" where
  "createNodeId s = NodeId s"

text \<open>
  A stored node. Nodes that are not items have no \<open>system\<close>, no preferred language
  and no elements; the elements of a node are read only from a node found under the id of an
  item, which has them.
\<close>

record node =
  node_id :: node_id
  internal_type :: string
  node_system :: "item_system option"
  node_preferred_language :: "string option"
  node_elements :: "(string \<times> element) list"

datatype report =
    WebhookIgnored
  | WebhookNotHandled
  | Handling jsval jsval
  | MoreThanOneItem nat
  | LanguageNotConfigured jsval
  | VariantNotFound jsval string
  | NotSupportedYet
  | Dump webhook_body

datatype level = VerboseLevel | WarnLevel

datatype action = CreateNode node | DeleteNode node | TouchNode node_id

datatype error = TypeError

text \<open>
  The host (\<^verbatim>\<open>SourceNodesArgs\<close>): the body of the event, the node store in the order of
  insertion, the calls made on \<^verbatim>\<open>api.actions\<close> and the messages given to
  \<^verbatim>\<open>api.reporter\<close>.
\<close>

record api =
  webhookBody :: "webhook_body option"
  nodes :: "node list"
  actions :: "action list"
  reporter :: "(level \<times> report) list"

type_synonym 'a outcome = "(error \<times> api) + ('a \<times> api)"

record config =
  projectId :: string
  languageCodenames :: "string list"
  includeRawContent :: bool
  includeTaxonomies :: bool
  includeTypes :: bool

text \<open>
  What the source imports and this file does not define: the remote fetcher and the constants
  and names of \<^verbatim>\<open>naming.ts\<close>. They are parameters of the model. The fetcher answers
  from a remote state that does not change during a run.
\<close>

record env =
  loadKontentItem :: "jsval \<Rightarrow> string \<Rightarrow> load_result"
  getKontentItemInterfaceName :: string
  getKontentItemTypeName :: "string \<Rightarrow> string"
  getKontentTaxonomyTypeName :: string
  getKontentTypeTypeName :: string
  RICH_TEXT_ELEMENT_TYPE_NAME :: string

text \<open>
  The node store belongs to the host, not to the repository. It is modelled as section 6 of
  the spec describes the collaborator (\<^verbatim>\<open>create\<close>, \<^verbatim>\<open>delete\<close>, \<^verbatim>\<open>touch\<close>,
  \<^verbatim>\<open>getById\<close>, \<^verbatim>\<open>getAllByType\<close>, \<^verbatim>\<open>getAll\<close>): creating a node under an id that
  is stored replaces the stored node in its place ("updates (by recreate)"), creating a node
  under a new id adds it at the end, deleting removes the node of that id, and touching
  changes no node.
\<close>

definition putNode :: "node \<Rightarrow> node list \<Rightarrow> node list" where
  "putNode n ns =
     (if \<exists>m \<in> set ns. node_id m = node_id n
      then map (\<lambda>m. if node_id m = node_id n then n else m) ns
      else ns @ [n])"

definition createNode :: "node \<Rightarrow> api \<Rightarrow> api" where
  "createNode n a =
     a\<lparr>nodes := putNode n (nodes a), actions := actions a @ [CreateNode n]\<rparr>"

definition deleteNode :: "node \<Rightarrow> api \<Rightarrow> api" where
  "deleteNode n a =
     a\<lparr>nodes := filter (\<lambda>m. node_id m \<noteq> node_id n) (nodes a),
       actions := actions a @ [DeleteNode n]\<rparr>"

definition touchNode :: "node_id \<Rightarrow> api \<Rightarrow> api" where
  "touchNode i a = a\<lparr>actions := actions a @ [TouchNode i]\<rparr>"

definition getNode :: "node_id \<Rightarrow> api \<Rightarrow> node option" where
  "getNode i a = find (\<lambda>m. node_id m = i) (nodes a)"

definition getNodes :: "api \<Rightarrow> node list" where
  "getNodes a = nodes a"

definition getNodesByType :: "string \<Rightarrow> api \<Rightarrow> node list" where
  "getNodesByType t a = filter (\<lambda>m. internal_type m = t) (nodes a)"

definition verbose :: "report \<Rightarrow> api \<Rightarrow> api" where
  "verbose r a = a\<lparr>reporter := reporter a @ [(VerboseLevel, r)]\<rparr>"

definition warn :: "report \<Rightarrow> api \<Rightarrow> api" where
  "warn r a = a\<lparr>reporter := reporter a @ [(WarnLevel, r)]\<rparr>"

text \<open>
  Modelled from the spec: \<^verbatim>\<open>addPreferredLanguageProperty\<close> of
  \<^verbatim>\<open>sourceNodes.items.ts\<close> is not in the source. A snapshot is materialised "tagging
  each with preferred-language L". The source passes a one-element array; the model takes
  the element.
\<close>

definition addPreferredLanguageProperty :: "kontent_item \<Rightarrow> string \<Rightarrow> kontent_item" where
  "addPreferredLanguageProperty rawKontentItem preferredLanguage =
     rawKontentItem\<lparr>item_preferred_language := Some preferredLanguage\<rparr>"

text \<open>
  Modelled from the spec: \<^verbatim>\<open>alterRichTextElements\<close> of \<^verbatim>\<open>sourceNodes.items.ts\<close> is not
  in the source. The "rich-text rewriting" is out of the scope of the spec; of an element the
  model has the type and the \<^verbatim>\<open>modular_content\<close>, which the cascade reads from the stored
  node, and the rewriting keeps them.
\<close>

definition alterRichTextElements :: "kontent_item \<Rightarrow> kontent_item" where
  "alterRichTextElements rawKontentItem = rawKontentItem"

text \<open>
  Modelled from the spec: \<^verbatim>\<open>getKontentItemLanguageVariantArtifact\<close> of
  \<^verbatim>\<open>sourceNodes.items.ts\<close> is not in the source. The node of a snapshot has the identity
  derived from the id of the item and the requested language, "NOT from the snapshot's actual
  resolved language", and "carries a preferredLanguage marker recording which
  requested-language slot it occupies". The raw content that \<open>includeRaw\<close> adds is not
  part of the model of a node.
\<close>

definition getKontentItemLanguageVariantArtifact :: "env \<Rightarrow> kontent_item \<Rightarrow> bool \<Rightarrow> node" where
  "getKontentItemLanguageVariantArtifact env rawKontentItem includeRaw =
     \<lparr>node_id = createNodeId (getKontentItemNodeStringForId
          (system_id (system rawKontentItem))
          (case item_preferred_language rawKontentItem of
             None \<Rightarrow> ''undefined'' | Some l \<Rightarrow> l)),
      internal_type = getKontentItemTypeName env (system_type (system rawKontentItem)),
      node_system = Some (system rawKontentItem),
      node_preferred_language = item_preferred_language rawKontentItem,
      node_elements = elements rawKontentItem\<rparr>"

subsection \<open>The envelope validator\<close>

text \<open>\<^verbatim>\<open>parsedBody?.data?.items\<close> and \<^verbatim>\<open>parsedBody?.message?.f\<close>.\<close>

definition chain_items :: "webhook_body option \<Rightarrow> js_items" where
  "chain_items parsedBody =
     (case parsedBody of None \<Rightarrow> NoItems
      | Some b \<Rightarrow> (case data b of None \<Rightarrow> NoItems | Some d \<Rightarrow> items d))"

text \<open>
  \<^verbatim>\<open>items?.every(item => item.language && item.id)\<close>: \<^verbatim>\<open>every\<close> stops at the first
  entry for which the callback is falsy; the callback throws on an entry that is
  \<^verbatim>\<open>null\<close> or \<^verbatim>\<open>undefined\<close>. The \<^verbatim>\<open>?.\<close> guards a missing \<open>items\<close> only: on a
  value that is no array the call of \<^verbatim>\<open>every\<close> throws.
\<close>

fun everyItem :: "webhook_item option list \<Rightarrow> error + bool" where
  "everyItem [] = Inr True"
| "everyItem (None # rest) = Inl TypeError"
| "everyItem (Some i # rest) =
     (if truthy (item_language i) \<and> truthy (item_id i) then everyItem rest else Inr False)"

definition itemsEvery :: "js_items \<Rightarrow> error + bool" where
  "itemsEvery its =
     (case its of
        NoItems \<Rightarrow> Inr False
      | NotArray x \<Rightarrow> Inl TypeError
      | ItemsArray es \<Rightarrow> everyItem es)"

definition chain_message :: "(webhook_message \<Rightarrow> jsval) \<Rightarrow> webhook_body option \<Rightarrow> jsval" where
  "chain_message f parsedBody =
     (case parsedBody of None \<Rightarrow> JUndefined
      | Some b \<Rightarrow> (case message b of None \<Rightarrow> JUndefined | Some m \<Rightarrow> f m))"

definition parseKontentWebhookBody :: "api \<Rightarrow> error + webhook_body option" where
  "parseKontentWebhookBody a =
     (let parsedBody = webhookBody a
      in case itemsEvery (chain_items parsedBody) of
           Inl e \<Rightarrow> Inl e
         | Inr allItems \<Rightarrow>
             (let isCorrectStructure =
                    (allItems
                     \<and> truthy (chain_message api_name parsedBody)
                     \<and> truthy (chain_message project_id parsedBody)
                     \<and> chain_message operation parsedBody \<noteq> JNull)
              in Inr (if isCorrectStructure then parsedBody else None)))"

definition isKontentSupportedWebhook :: "webhook_message \<Rightarrow> string \<Rightarrow> bool" where
  "isKontentSupportedWebhook msg projId =
     (let isCorrectProject = (project_id msg = JString projId);
          isPreviewWebhook = (JString ''delivery_preview'' = api_name msg
            \<and> includes_js [''upsert'', ''archive'', ''restore''] (operation msg));
          isBuildWebhook = (JString ''delivery_production'' = api_name msg
            \<and> includes_js [''publish'', ''unpublish''] (operation msg));
          isCorrectMessageType = (message_type msg = JString ''content_item_variant'')
      in isCorrectProject \<and> (isPreviewWebhook \<or> isBuildWebhook) \<and> isCorrectMessageType)"

subsection \<open>Materialising a snapshot\<close>

definition createNodeFromRawKontentItem ::
  "env \<Rightarrow> kontent_item \<Rightarrow> bool \<Rightarrow> string \<Rightarrow> api \<Rightarrow> node \<times> api" where
  "createNodeFromRawKontentItem env rawKontentItem includeRaw preferredLanguage a =
     (let raw1 = addPreferredLanguageProperty rawKontentItem preferredLanguage;
          raw2 = alterRichTextElements raw1;
          nodeData = getKontentItemLanguageVariantArtifact env raw2 includeRaw
      in (nodeData, createNode nodeData a))"

text \<open>
  \<^verbatim>\<open>data?.system?.id\<close> is \<^verbatim>\<open>undefined\<close> for a node without \<^verbatim>\<open>system\<close>; it is not
  \<^verbatim>\<open>null\<close>, so \<^verbatim>\<open>substring\<close> is called on it and throws.
\<close>

definition isContentComponent :: "node \<Rightarrow> error + bool" where
  "isContentComponent d =
     (case node_system d of
        None \<Rightarrow> Inl TypeError
      | Some s \<Rightarrow> Inr (substring (system_id s) 14 16 = ''01''))"

text \<open>
  \<^verbatim>\<open>(api.webhookBody)?.data.items[0]\<close> followed by the first read of a property of the
  result: without a body or with an empty \<open>items\<close> the item is \<^verbatim>\<open>undefined\<close> and the read
  of \<^verbatim>\<open>itemInfo.language\<close> throws, as it does when the entry \<^verbatim>\<open>0\<close> is \<^verbatim>\<open>null\<close>;
  without \<open>data\<close> or \<open>items\<close> the chain itself throws. Nothing happens in between.
\<close>

definition firstItem :: "api \<Rightarrow> error + webhook_item" where
  "firstItem a =
     (case webhookBody a of
        None \<Rightarrow> Inl TypeError
      | Some b \<Rightarrow>
          (case data b of
             None \<Rightarrow> Inl TypeError
           | Some d \<Rightarrow>
               (case items d of
                  NoItems \<Rightarrow> Inl TypeError
                | NotArray None \<Rightarrow> Inl TypeError
                | NotArray (Some i) \<Rightarrow> Inr i
                | ItemsArray [] \<Rightarrow> Inl TypeError
                | ItemsArray (None # _) \<Rightarrow> Inl TypeError
                | ItemsArray (Some i # _) \<Rightarrow> Inr i)))"

text \<open>The loop over the own keys of \<^verbatim>\<open>modularKontent\<close>, in the order of the object.\<close>

fun createModularNodes ::
  "env \<Rightarrow> config \<Rightarrow> string \<Rightarrow> (string \<times> kontent_item) list \<Rightarrow> node_id list \<times> api
     \<Rightarrow> node_id list \<times> api" where
  "createModularNodes env cfg lang [] st = st"
| "createModularNodes env cfg lang ((key, modularKontentItem) # rest) (ids, a) =
     (let (nodeData, a') =
            createNodeFromRawKontentItem env modularKontentItem (includeRawContent cfg) lang a
      in createModularNodes env cfg lang rest (ids @ [node_id nodeData], a'))"

text \<open>The snapshot and its modular content, as both handlers materialise them.\<close>

definition createItemNodes ::
  "env \<Rightarrow> config \<Rightarrow> string \<Rightarrow> kontent_item \<Rightarrow> (string \<times> kontent_item) list
     \<Rightarrow> node_id list \<times> api \<Rightarrow> node_id list \<times> api" where
  "createItemNodes env cfg lang kontentItem modular st =
     (case st of (ids, a) \<Rightarrow>
        (let (nodeData, a') =
               createNodeFromRawKontentItem env kontentItem (includeRawContent cfg) lang a
         in createModularNodes env cfg lang modular (ids @ [node_id nodeData], a')))"

subsection \<open>Upsert\<close>

text \<open>One turn of the loop of \<^verbatim>\<open>handleUpsertItem\<close>, for the language \<open>lang\<close>.\<close>

definition upsertLanguage ::
  "env \<Rightarrow> config \<Rightarrow> webhook_item \<Rightarrow> string \<Rightarrow> node_id list \<times> api \<Rightarrow> node_id list \<times> api" where
  "upsertLanguage env cfg itemInfo lang st =
     (case st of (createdItemsIds, a) \<Rightarrow>
        (let r = loadKontentItem env (item_id itemInfo) lang
         in case item r of
              None \<Rightarrow> (createdItemsIds, verbose (VariantNotFound (item_id itemInfo) lang) a)
            | Some kontentItem \<Rightarrow>
                createItemNodes env cfg lang kontentItem (modularKontent r)
                  (createdItemsIds, a)))"

definition handleUpsertItem :: "env \<Rightarrow> config \<Rightarrow> api \<Rightarrow> (node_id list) outcome" where
  "handleUpsertItem env cfg a =
     (case firstItem a of
        Inl e \<Rightarrow> Inl (e, a)
      | Inr itemInfo \<Rightarrow>
          if \<not> includes_js (languageCodenames cfg) (item_language itemInfo)
          then Inr ([], verbose (LanguageNotConfigured (item_language itemInfo)) a)
          else Inr (fold (upsertLanguage env cfg itemInfo) (languageCodenames cfg) ([], a)))"

subsection \<open>Delete\<close>

text \<open>
  The \<^verbatim>\<open>forEach\<close> over the codenames referenced by the removed node. The candidates are
  searched in \<open>kontentItemNodes\<close>, which was read from the store before the loop.
\<close>

fun removeComponents ::
  "node list \<Rightarrow> node \<Rightarrow> string list \<Rightarrow> node_id list \<times> api \<Rightarrow> (node_id list) outcome" where
  "removeComponents kontentItemNodes n [] st = Inr st"
| "removeComponents kontentItemNodes n (modularItemCodename # rest) (touchedItemsIds, a) =
     (case find (\<lambda>candidateNode.
                   (case node_system candidateNode of
                      None \<Rightarrow> False
                    | Some s \<Rightarrow> system_codename s = modularItemCodename)
                   \<and> node_preferred_language candidateNode = node_preferred_language n)
             kontentItemNodes of
        None \<Rightarrow> removeComponents kontentItemNodes n rest (touchedItemsIds, a)
      | Some candidate \<Rightarrow>
          (case isContentComponent candidate of
             Inl e \<Rightarrow> Inl (e, a)
           | Inr True \<Rightarrow>
               removeComponents kontentItemNodes n rest
                 (touchedItemsIds @ [node_id candidate], deleteNode candidate a)
           | Inr False \<Rightarrow> removeComponents kontentItemNodes n rest (touchedItemsIds, a)))"

text \<open>
  One turn of the loop of \<^verbatim>\<open>handleDeleteItem\<close>. Without a snapshot the node is looked up
  and its \<^verbatim>\<open>elements\<close> are read before the test \<^verbatim>\<open>if (node)\<close>: the read throws when
  the lookup found nothing, so that test is reached with a node only.
\<close>

definition deleteLanguage ::
  "env \<Rightarrow> config \<Rightarrow> webhook_item \<Rightarrow> string \<Rightarrow> node_id list \<times> api \<Rightarrow> (node_id list) outcome" where
  "deleteLanguage env cfg itemInfo lang st =
     (case st of (touchedItemsIds, a) \<Rightarrow>
        (let r = loadKontentItem env (item_id itemInfo) lang
         in case item r of
              None \<Rightarrow>
                (let idString = getKontentItemNodeStringForId
                       (toTemplateString (item_id itemInfo)) lang;
                     nd = getNode (createNodeId idString) a;
                     kontentItemNodes =
                       filter (\<lambda>m. startsWith (internal_type m) (getKontentItemInterfaceName env))
                         (getNodes a)
                 in case nd of
                      None \<Rightarrow> Inl (TypeError, a)
                    | Some n \<Rightarrow>
                        (let modularItemCodenames =
                               concat (map modular_content
                                 (filter (\<lambda>e. element_type e = RICH_TEXT_ELEMENT_TYPE_NAME env)
                                    (map snd (node_elements n))))
                         in case removeComponents kontentItemNodes n modularItemCodenames
                                   (touchedItemsIds, a) of
                              Inl e \<Rightarrow> Inl e
                            | Inr (ids, a') \<Rightarrow> Inr (ids @ [node_id n], deleteNode n a')))
            | Some kontentItem \<Rightarrow>
                Inr (createItemNodes env cfg lang kontentItem (modularKontent r)
                       (touchedItemsIds, a))))"

fun deleteLoop ::
  "env \<Rightarrow> config \<Rightarrow> webhook_item \<Rightarrow> string list \<Rightarrow> node_id list \<times> api
     \<Rightarrow> (node_id list) outcome" where
  "deleteLoop env cfg itemInfo [] st = Inr st"
| "deleteLoop env cfg itemInfo (lang # rest) st =
     (case deleteLanguage env cfg itemInfo lang st of
        Inl e \<Rightarrow> Inl e
      | Inr st' \<Rightarrow> deleteLoop env cfg itemInfo rest st')"

definition handleDeleteItem :: "env \<Rightarrow> config \<Rightarrow> api \<Rightarrow> (node_id list) outcome" where
  "handleDeleteItem env cfg a =
     (case firstItem a of
        Inl e \<Rightarrow> Inl (e, a)
      | Inr itemInfo \<Rightarrow>
          if \<not> includes_js (languageCodenames cfg) (item_language itemInfo)
          then Inr ([], verbose (LanguageNotConfigured (item_language itemInfo)) a)
          else deleteLoop env cfg itemInfo (languageCodenames cfg) ([], a))"

subsection \<open>The entry point\<close>

text \<open>
  \<^verbatim>\<open>if (c) { const processedIds = await handler(api, pluginConfig);
  processedItemIds.concat(processedIds); }\<close>: \<^verbatim>\<open>concat\<close> returns a new array and leaves
  \<open>processedItemIds\<close> as it was; the new array is dropped.
\<close>

definition whenOperation ::
  "bool \<Rightarrow> (api \<Rightarrow> (node_id list) outcome) \<Rightarrow> node_id list \<Rightarrow> api \<Rightarrow> (node_id list) outcome" where
  "whenOperation c handler processedItemIds a =
     (if c then
        (case handler a of
           Inl e \<Rightarrow> Inl e
         | Inr (processedIds, a') \<Rightarrow>
             (let dropped = processedItemIds @ processedIds
              in Inr (processedItemIds, a')))
      else Inr (processedItemIds, a))"

text \<open>The three loops that end \<^verbatim>\<open>handleIncomingWebhook\<close>.\<close>

definition touchItemType :: "node_id list \<Rightarrow> string \<Rightarrow> api \<Rightarrow> api" where
  "touchItemType processedItemIds itemType a =
     fold (\<lambda>itemToTouch. touchNode (node_id itemToTouch))
       (filter (\<lambda>i. node_id i \<in> set processedItemIds) (getNodesByType itemType a)) a"

definition touchAllOfType :: "string \<Rightarrow> api \<Rightarrow> api" where
  "touchAllOfType t a = fold (\<lambda>n. touchNode (node_id n)) (getNodesByType t a) a"

definition touchPropagation ::
  "env \<Rightarrow> config \<Rightarrow> string list \<Rightarrow> node_id list \<Rightarrow> api \<Rightarrow> api" where
  "touchPropagation env cfg itemTypes processedItemIds a =
     (let a1 = fold (touchItemType processedItemIds) itemTypes a;
          a2 = (if includeTaxonomies cfg
                then touchAllOfType (getKontentTaxonomyTypeName env) a1 else a1);
          a3 = (if includeTypes cfg
                then touchAllOfType (getKontentTypeTypeName env) a2 else a2)
      in a3)"

text \<open>
  An error thrown by the validator leaves \<^verbatim>\<open>handleIncomingWebhook\<close> at once. When the
  validator has returned the body, \<^verbatim>\<open>every\<close> has run on \<open>data.items\<close> and the fields
  of \<open>message\<close> have been read: \<open>items\<close> is an array and \<open>message\<close> is there, and the
  branches for the other shapes are never taken (\<open>parseKontentWebhookBody_Some_iff\<close> below).
\<close>

definition handleIncomingWebhook :: "env \<Rightarrow> config \<Rightarrow> string list \<Rightarrow> api \<Rightarrow> unit outcome" where
  "handleIncomingWebhook env cfg itemTypes a =
     (case parseKontentWebhookBody a of
        Inl e \<Rightarrow> Inl (e, a)
      | Inr None \<Rightarrow> Inr ((), verbose WebhookIgnored a)
      | Inr (Some webhook) \<Rightarrow>
          (case message webhook of
             None \<Rightarrow> Inl (TypeError, a)
           | Some msg \<Rightarrow>
               if \<not> isKontentSupportedWebhook msg (projectId cfg)
               then Inr ((), verbose WebhookNotHandled a)
               else
                 (let a1 = verbose (Handling (operation msg) (api_name msg)) a
                  in case chain_items (Some webhook) of
                       NoItems \<Rightarrow> Inl (TypeError, a1)
                     | NotArray x \<Rightarrow> Inl (TypeError, a1)
                     | ItemsArray its \<Rightarrow>
                         (let a2 = (if length its > 1
                                    then warn (MoreThanOneItem (length its)) a1 else a1);
                              processedItemIds = []
                          in if api_name msg = JString ''delivery_preview'' then
                               (case whenOperation
                                       (operation msg = JString ''upsert''
                                          \<or> operation msg = JString ''restore'')
                                       (handleUpsertItem env cfg) processedItemIds a2 of
                                  Inl e \<Rightarrow> Inl e
                                | Inr (processedItemIds1, a3) \<Rightarrow>
                                    (case whenOperation (operation msg = JString ''archive'')
                                            (handleDeleteItem env cfg) processedItemIds1 a3 of
                                       Inl e \<Rightarrow> Inl e
                                     | Inr (processedItemIds2, a4) \<Rightarrow>
                                         Inr ((), touchPropagation env cfg itemTypes
                                                    processedItemIds2 a4)))
                             else if api_name msg = JString ''delivery_production'' then
                               (case whenOperation (operation msg = JString ''publish'')
                                       (handleUpsertItem env cfg) processedItemIds a2 of
                                  Inl e \<Rightarrow> Inl e
                                | Inr (processedItemIds1, a3) \<Rightarrow>
                                    (case whenOperation (operation msg = JString ''unpublish'')
                                            (handleDeleteItem env cfg) processedItemIds1 a3 of
                                       Inl e \<Rightarrow> Inl e
                                     | Inr (processedItemIds2, a4) \<Rightarrow>
                                         Inr ((), touchPropagation env cfg itemTypes
                                                    processedItemIds2 a4)))
                             else Inr ((), verbose (Dump webhook)
                                             (verbose NotSupportedYet a2))))))"

subsection \<open>Names for the statements\<close>

text \<open>
  The node that \<open>createNodeFromRawKontentItem\<close> builds from a snapshot for a language, and
  the nodes that one turn of either loop creates from a snapshot and its modular content, in
  the order of creation.
\<close>

definition nodeFor :: "env \<Rightarrow> config \<Rightarrow> string \<Rightarrow> kontent_item \<Rightarrow> node" where
  "nodeFor env cfg lang rawKontentItem =
     getKontentItemLanguageVariantArtifact env
       (alterRichTextElements (addPreferredLanguageProperty rawKontentItem lang))
       (includeRawContent cfg)"

definition createdNodes ::
  "env \<Rightarrow> config \<Rightarrow> string \<Rightarrow> kontent_item \<Rightarrow> (string \<times> kontent_item) list \<Rightarrow> node list" where
  "createdNodes env cfg lang kontentItem modular =
     nodeFor env cfg lang kontentItem # map (\<lambda>(key, m). nodeFor env cfg lang m) modular"

text \<open>The nodes that the loop of \<open>handleUpsertItem\<close> creates, in the order of creation.\<close>

definition upsertCreated :: "env \<Rightarrow> config \<Rightarrow> webhook_item \<Rightarrow> string list \<Rightarrow> node list" where
  "upsertCreated env cfg itemInfo langs =
     concat (map (\<lambda>lang.
       (let r = loadKontentItem env (item_id itemInfo) lang
        in case item r of
             None \<Rightarrow> []
           | Some kontentItem \<Rightarrow> createdNodes env cfg lang kontentItem (modularKontent r)))
       langs)"

text \<open>The stored node of an id that a list of created nodes leaves: the last one of that id.\<close>

definition override :: "node list \<Rightarrow> node \<Rightarrow> node" where
  "override cs m = fold (\<lambda>c acc. if node_id c = node_id acc then c else acc) cs m"

text \<open>
  The conditions under which \<open>handleIncomingWebhook\<close> calls \<open>handleUpsertItem\<close> and
  \<open>handleDeleteItem\<close>, and the state in which it calls them: after the message that
  announces the handling and the warning about more than one item.
\<close>

definition upsertClassified :: "webhook_message \<Rightarrow> bool" where
  "upsertClassified msg =
     ((api_name msg = JString ''delivery_preview''
        \<and> (operation msg = JString ''upsert'' \<or> operation msg = JString ''restore''))
      \<or> (api_name msg = JString ''delivery_production''
        \<and> operation msg = JString ''publish''))"

definition deleteClassified :: "webhook_message \<Rightarrow> bool" where
  "deleteClassified msg =
     ((api_name msg = JString ''delivery_preview'' \<and> operation msg = JString ''archive'')
      \<or> (api_name msg = JString ''delivery_production''
        \<and> operation msg = JString ''unpublish''))"

definition announced :: "webhook_message \<Rightarrow> webhook_item option list \<Rightarrow> api \<Rightarrow> api" where
  "announced msg its a =
     (let a1 = verbose (Handling (operation msg) (api_name msg)) a
      in if length its > 1 then warn (MoreThanOneItem (length its)) a1 else a1)"

text \<open>
  The parts of one turn of the loop of \<open>handleDeleteItem\<close>: the item nodes read from the
  store, the codenames that the rich text elements of the removed node reference, the
  candidate that \<^verbatim>\<open>find\<close> returns for a codename (the first item node, in the order
  of the store, with that codename and the marker of the removed node), and the candidates
  that are deleted, in order.
\<close>

definition kontentItemNodesOf :: "env \<Rightarrow> api \<Rightarrow> node list" where
  "kontentItemNodesOf env a =
     filter (\<lambda>m. startsWith (internal_type m) (getKontentItemInterfaceName env)) (getNodes a)"

definition richTextCodenames :: "env \<Rightarrow> node \<Rightarrow> string list" where
  "richTextCodenames env n =
     concat (map modular_content
       (filter (\<lambda>e. element_type e = RICH_TEXT_ELEMENT_TYPE_NAME env) (map snd (node_elements n))))"

definition candidateFor :: "node list \<Rightarrow> node \<Rightarrow> string \<Rightarrow> node option" where
  "candidateFor kontentItemNodes n modularItemCodename =
     find (\<lambda>candidateNode.
             (case node_system candidateNode of
                None \<Rightarrow> False
              | Some s \<Rightarrow> system_codename s = modularItemCodename)
             \<and> node_preferred_language candidateNode = node_preferred_language n)
       kontentItemNodes"

definition componentTargets :: "node list \<Rightarrow> node \<Rightarrow> string list \<Rightarrow> node list" where
  "componentTargets kontentItemNodes n codenames =
     concat (map (\<lambda>c.
       (case candidateFor kontentItemNodes n c of
          None \<Rightarrow> []
        | Some candidate \<Rightarrow>
            (if isContentComponent candidate = Inr True then [candidate] else [])))
       codenames)"

text \<open>
  The ids that the three loops ending \<open>handleIncomingWebhook\<close> touch, in order, for a list
  of processed ids and a store.
\<close>

definition touchedIds :: "env \<Rightarrow> config \<Rightarrow> string list \<Rightarrow> node_id list \<Rightarrow> node list \<Rightarrow> node_id list" where
  "touchedIds env cfg itemTypes processedItemIds ns =
     concat (map (\<lambda>t. map node_id
        (filter (\<lambda>i. node_id i \<in> set processedItemIds) (filter (\<lambda>m. internal_type m = t) ns)))
        itemTypes)
     @ (if includeTaxonomies cfg
        then map node_id (filter (\<lambda>m. internal_type m = getKontentTaxonomyTypeName env) ns)
        else [])
     @ (if includeTypes cfg
        then map node_id (filter (\<lambda>m. internal_type m = getKontentTypeTypeName env) ns)
        else [])"

subsection \<open>Concrete inputs\<close>

text \<open>The inputs at which the theorems below are evaluated.\<close>

definition ex_item :: "string \<Rightarrow> string \<Rightarrow> webhook_item" where
  "ex_item i l = \<lparr>item_id = JString i, item_language = JString l\<rparr>"

definition ex_message :: "string \<Rightarrow> jsval \<Rightarrow> webhook_message" where
  "ex_message apiName op =
     \<lparr>api_name = JString apiName, project_id = JString ''p1'', operation = op,
      message_type = JString ''content_item_variant''\<rparr>"

definition ex_body :: "webhook_item list \<Rightarrow> webhook_message \<Rightarrow> webhook_body" where
  "ex_body its msg =
     \<lparr>data = Some \<lparr>items = ItemsArray (map Some its)\<rparr>, message = Some msg\<rparr>"

definition ex_api :: "webhook_body \<Rightarrow> node list \<Rightarrow> api" where
  "ex_api b ns = \<lparr>webhookBody = Some b, nodes = ns, actions = [], reporter = []\<rparr>"

definition ex_cfg :: "string list \<Rightarrow> config" where
  "ex_cfg langs =
     \<lparr>projectId = ''p1'', languageCodenames = langs, includeRawContent = False,
      includeTaxonomies = True, includeTypes = True\<rparr>"

definition ex_env :: "(jsval \<Rightarrow> string \<Rightarrow> load_result) \<Rightarrow> env" where
  "ex_env fetch =
     \<lparr>loadKontentItem = fetch,
      getKontentItemInterfaceName = ''kontent_item'',
      getKontentItemTypeName = (\<lambda>t. ''kontent_item_'' @ t),
      getKontentTaxonomyTypeName = ''kontent_taxonomy'',
      getKontentTypeTypeName = ''kontent_type'',
      RICH_TEXT_ELEMENT_TYPE_NAME = ''rich_text''\<rparr>"

definition ex_fetch_none :: "jsval \<Rightarrow> string \<Rightarrow> load_result" where
  "ex_fetch_none i l = \<lparr>item = None, modularKontent = []\<rparr>"

definition ex_kontent_item :: "string \<Rightarrow> string \<Rightarrow> (string \<times> element) list \<Rightarrow> kontent_item" where
  "ex_kontent_item i c els =
     \<lparr>system = \<lparr>system_id = i, system_codename = c, system_language = ''en'',
                 system_type = ''article''\<rparr>,
      elements = els, item_preferred_language = None\<rparr>"

definition ex_node :: "string \<Rightarrow> string \<Rightarrow> string \<Rightarrow> (string \<times> element) list \<Rightarrow> node" where
  "ex_node i c l els =
     \<lparr>node_id = NodeId (ItemNodeString i l), internal_type = ''kontent_item_article'',
      node_system = Some \<lparr>system_id = i, system_codename = c, system_language = ''en'',
                           system_type = ''article''\<rparr>,
      node_preferred_language = Some l, node_elements = els\<rparr>"

text \<open>
  A remote state in which the item \<open>i1\<close> resolves for the languages \<open>en\<close> and \<open>cs\<close>,
  each time with the linked item \<open>i2\<close> in its modular content.
\<close>

definition ex_fetch_home :: "jsval \<Rightarrow> string \<Rightarrow> load_result" where
  "ex_fetch_home i l =
     (if i = JString ''i1'' \<and> (l = ''en'' \<or> l = ''cs'')
      then \<lparr>item = Some (ex_kontent_item ''i1'' ''home'' []),
            modularKontent = [(''teaser'', ex_kontent_item ''i2'' ''teaser'' [])]\<rparr>
      else \<lparr>item = None, modularKontent = []\<rparr>)"

text \<open>A remote state in which the item \<open>i1\<close> resolves for \<open>en\<close> and for no other language.\<close>

definition ex_fetch_en :: "jsval \<Rightarrow> string \<Rightarrow> load_result" where
  "ex_fetch_en i l =
     (if i = JString ''i1'' \<and> l = ''en''
      then \<lparr>item = Some (ex_kontent_item ''i1'' ''home'' []),
            modularKontent = [(''teaser'', ex_kontent_item ''i2'' ''teaser'' [])]\<rparr>
      else \<lparr>item = None, modularKontent = []\<rparr>)"

definition ex_taxonomy :: node where
  "ex_taxonomy =
     \<lparr>node_id = NodeId (OtherNodeString ''taxonomy-1''), internal_type = ''kontent_taxonomy'',
      node_system = None, node_preferred_language = None, node_elements = []\<rparr>"

text \<open>
  A stored node of the item \<open>i1\<close> for \<open>en\<close> whose rich text references three
  codenames, and stored nodes for them: a component tagged \<open>en\<close>, a linked item that is
  not a component, a component tagged \<open>cs\<close>, a component referenced by an element that
  is not rich text only, and a second node of the codename \<open>teaser\<close> that is not a
  component.
\<close>

definition ex_home :: node where
  "ex_home = ex_node ''i1'' ''home'' ''en''
     [(''body'', \<lparr>element_type = ''rich_text'',
                   modular_content = [''teaser'', ''promo'', ''linked'']\<rparr>),
      (''title'', \<lparr>element_type = ''text'', modular_content = [''other'']\<rparr>)]"

definition ex_teaser :: node where
  "ex_teaser = ex_node ''aaaaaaaa-aaaa-01aa-aaaa-aaaaaaaaaaaa'' ''teaser'' ''en'' []"

definition ex_linked :: node where
  "ex_linked = ex_node ''bbbbbbbb-bbbb-4bbb-bbbb-bbbbbbbbbbbb'' ''linked'' ''en'' []"

definition ex_promo_cs :: node where
  "ex_promo_cs = ex_node ''cccccccc-cccc-01cc-cccc-cccccccccccc'' ''promo'' ''cs'' []"

definition ex_other :: node where
  "ex_other = ex_node ''dddddddd-dddd-01dd-dddd-dddddddddddd'' ''other'' ''en'' []"

definition ex_teaser_plain :: node where
  "ex_teaser_plain = ex_node ''eeeeeeee-eeee-4eee-eeee-eeeeeeeeeeee'' ''teaser'' ''en'' []"

section \<open>Properties\<close>

subsection \<open>The envelope validator\<close>

lemma everyItem_True_iff:
  "everyItem es = Inr True
     \<longleftrightarrow> (\<forall>e \<in> set es. \<exists>i. e = Some i \<and> truthy (item_language i) \<and> truthy (item_id i))"
  by (induction es rule: everyItem.induct) auto


lemma itemsEvery_True_iff:
  "itemsEvery its = Inr True
     \<longleftrightarrow> (\<exists>es. its = ItemsArray es
            \<and> (\<forall>e \<in> set es. \<exists>i. e = Some i \<and> truthy (item_language i) \<and> truthy (item_id i)))"
  by (cases its) (simp_all add: itemsEvery_def everyItem_True_iff)

lemma parseKontentWebhookBody_Some_iff:
  "parseKontentWebhookBody a = Inr (Some b) \<longleftrightarrow>
     webhookBody a = Some b
     \<and> (\<exists>its. chain_items (Some b) = ItemsArray its
            \<and> (\<forall>e \<in> set its. \<exists>i. e = Some i \<and> truthy (item_language i) \<and> truthy (item_id i)))
     \<and> truthy (chain_message api_name (Some b))
     \<and> truthy (chain_message project_id (Some b))
     \<and> chain_message operation (Some b) \<noteq> JNull"
proof (cases "itemsEvery (chain_items (webhookBody a))")
  case (Inl e)
  then have "parseKontentWebhookBody a = Inl e" by (simp add: parseKontentWebhookBody_def)
  moreover from Inl have "itemsEvery (chain_items (webhookBody a)) \<noteq> Inr True" by simp
  ultimately show ?thesis by (auto simp: itemsEvery_True_iff)
next
  case (Inr allItems)
  then have "parseKontentWebhookBody a
      = Inr (if allItems \<and> truthy (chain_message api_name (webhookBody a))
               \<and> truthy (chain_message project_id (webhookBody a))
               \<and> chain_message operation (webhookBody a) \<noteq> JNull
             then webhookBody a else None)"
    by (simp add: parseKontentWebhookBody_def Let_def)
  moreover from Inr have "allItems \<longleftrightarrow> itemsEvery (chain_items (webhookBody a)) = Inr True"
    by simp
  ultimately show ?thesis by (auto simp: itemsEvery_True_iff)
qed


lemma supported_cases:
  assumes "isKontentSupportedWebhook m p"
  shows "(api_name m = JString ''delivery_preview''
          \<and> (operation m = JString ''upsert'' \<or> operation m = JString ''archive''
                \<or> operation m = JString ''restore''))
        \<or> (api_name m = JString ''delivery_production''
          \<and> (operation m = JString ''publish'' \<or> operation m = JString ''unpublish''))"
proof (cases "operation m")
  case JUndefined
  with assms show ?thesis by (simp add: isKontentSupportedWebhook_def includes_js_def)
next
  case JNull
  with assms show ?thesis by (simp add: isKontentSupportedWebhook_def includes_js_def)
next
  case (JString s)
  with assms have "(JString ''delivery_preview'' = api_name m
        \<and> s \<in> set [''upsert'', ''archive'', ''restore''])
     \<or> (JString ''delivery_production'' = api_name m \<and> s \<in> set [''publish'', ''unpublish''])"
    unfolding isKontentSupportedWebhook_def Let_def includes_js_def by simp
  then have "(api_name m = JString ''delivery_preview''
          \<and> (JString s = JString ''upsert'' \<or> JString s = JString ''archive''
                \<or> JString s = JString ''restore''))
        \<or> (api_name m = JString ''delivery_production''
          \<and> (JString s = JString ''publish'' \<or> JString s = JString ''unpublish''))"
    apply (simp only: set_simps insert_iff empty_iff jsval.inject)
    apply (elim disjE conjE)
        apply (simp_all only: simp_thms)
    done
  then show ?thesis by (simp only: JString)
qed

text \<open>
  C6. The validator is to return an envelope only if the items have an id and a language,
  \<open>api_name\<close> and \<open>project_id\<close> are there and \<open>operation\<close> is not absent. The code
  compares \<open>operation\<close> with \<^verbatim>\<open>null\<close> by \<^verbatim>\<open>!==\<close>, and a missing property is
  \<^verbatim>\<open>undefined\<close>: a body without \<open>message.operation\<close> is returned as an envelope.
\<close>

theorem parseKontentWebhookBody_operation_absent:
  "parseKontentWebhookBody
     (ex_api (ex_body [ex_item ''i1'' ''en''] (ex_message ''delivery_preview'' JUndefined)) [])
   = Inr (Some (ex_body [ex_item ''i1'' ''en''] (ex_message ''delivery_preview'' JUndefined)))"
  by (simp add: parseKontentWebhookBody_def ex_api_def ex_body_def ex_item_def ex_message_def
      chain_items_def chain_message_def truthy_def itemsEvery_def)

subsection \<open>An envelope without items\<close>

text \<open>
  C10. A body whose \<open>data.items\<close> is empty and whose message fields are present passes the
  structural check; both handlers then read a property of the absent first item and throw,
  and so does the entry point when the envelope is supported: the run ends with a
  \<open>TypeError\<close> after the message that announces the handling, not as a silent no-op.
\<close>

theorem empty_items_accepted_then_throws:
  assumes "webhookBody a = Some b" "data b = Some d" "items d = ItemsArray []" "message b = Some m"
    "truthy (api_name m)" "truthy (project_id m)" "operation m \<noteq> JNull"
  shows "parseKontentWebhookBody a = Inr (Some b)
       \<and> handleUpsertItem env cfg a = Inl (TypeError, a)
       \<and> handleDeleteItem env cfg a = Inl (TypeError, a)
       \<and> (isKontentSupportedWebhook m (projectId cfg) \<longrightarrow>
            handleIncomingWebhook env cfg itemTypes a
              = Inl (TypeError, verbose (Handling (operation m) (api_name m)) a))"
proof -
  have p: "parseKontentWebhookBody a = Inr (Some b)"
    using assms by (simp add: parseKontentWebhookBody_Some_iff chain_items_def chain_message_def)
  have f: "firstItem a = Inl TypeError" using assms by (simp add: firstItem_def)
  have u: "handleUpsertItem env cfg a = Inl (TypeError, a)"
    by (simp add: handleUpsertItem_def f)
  have d: "handleDeleteItem env cfg a = Inl (TypeError, a)"
    by (simp add: handleDeleteItem_def f)
  have f1: "firstItem (verbose r a) = Inl TypeError" for r
    using assms by (simp add: firstItem_def verbose_def)
  have u1: "handleUpsertItem env cfg (verbose r a) = Inl (TypeError, verbose r a)" for r
    by (simp add: handleUpsertItem_def f1)
  have d1: "handleDeleteItem env cfg (verbose r a) = Inl (TypeError, verbose r a)" for r
    by (simp add: handleDeleteItem_def f1)
  have h: "handleIncomingWebhook env cfg itemTypes a
             = Inl (TypeError, verbose (Handling (operation m) (api_name m)) a)"
    if s: "isKontentSupportedWebhook m (projectId cfg)"
  proof -
    note ops = supported_cases [OF s]
    have c: "chain_items (Some b) = ItemsArray []" using assms by (simp add: chain_items_def)
    from ops show ?thesis
    proof (elim disjE conjE)
      assume "api_name m = JString ''delivery_preview''" "operation m = JString ''upsert''"
      then show ?thesis
        by (simp add: handleIncomingWebhook_def p assms(4) s c whenOperation_def u1)
    next
      assume "api_name m = JString ''delivery_preview''" "operation m = JString ''archive''"
      then show ?thesis
        by (simp add: handleIncomingWebhook_def p assms(4) s c whenOperation_def d1)
    next
      assume "api_name m = JString ''delivery_preview''" "operation m = JString ''restore''"
      then show ?thesis
        by (simp add: handleIncomingWebhook_def p assms(4) s c whenOperation_def u1)
    next
      assume "api_name m = JString ''delivery_production''" "operation m = JString ''publish''"
      then show ?thesis
        by (simp add: handleIncomingWebhook_def p assms(4) s c whenOperation_def u1)
    next
      assume "api_name m = JString ''delivery_production''" "operation m = JString ''unpublish''"
      then show ?thesis
        by (simp add: handleIncomingWebhook_def p assms(4) s c whenOperation_def d1)
    qed
  qed
  show ?thesis using p u d h by blast
qed

theorem empty_items_accepted_then_throws_witness:
  "isKontentSupportedWebhook (ex_message ''delivery_preview'' (JString ''upsert''))
     (projectId (ex_cfg [''en'']))
   \<and> parseKontentWebhookBody
        (ex_api (ex_body [] (ex_message ''delivery_preview'' (JString ''upsert''))) [])
      = Inr (Some (ex_body [] (ex_message ''delivery_preview'' (JString ''upsert''))))
   \<and> handleIncomingWebhook (ex_env ex_fetch_none) (ex_cfg [''en'']) []
        (ex_api (ex_body [] (ex_message ''delivery_preview'' (JString ''upsert''))) [])
      = Inl (TypeError,
          \<lparr>webhookBody = Some (ex_body [] (ex_message ''delivery_preview'' (JString ''upsert''))),
           nodes = [], actions = [],
           reporter = [(VerboseLevel,
             Handling (JString ''upsert'') (JString ''delivery_preview''))]\<rparr>)"
  using empty_items_accepted_then_throws
    [of "ex_api (ex_body [] (ex_message ''delivery_preview'' (JString ''upsert''))) []"
        "ex_body [] (ex_message ''delivery_preview'' (JString ''upsert''))"
        "\<lparr>items = ItemsArray []\<rparr>"
        "ex_message ''delivery_preview'' (JString ''upsert'')"
        "ex_env ex_fetch_none" "ex_cfg [''en'']" "[]"]
  by (simp add: ex_api_def ex_body_def ex_message_def ex_cfg_def truthy_def verbose_def
      isKontentSupportedWebhook_def includes_js_def)

subsection \<open>Malformed bodies\<close>





subsection \<open>Evaluation at concrete inputs\<close>

lemmas ex_defs = ex_api_def ex_body_def ex_item_def ex_cfg_def ex_env_def ex_message_def
  ex_fetch_home_def ex_fetch_none_def ex_fetch_en_def ex_kontent_item_def ex_node_def ex_taxonomy_def

lemmas run_defs = handleUpsertItem_def handleDeleteItem_def firstItem_def includes_js_def
  upsertLanguage_def deleteLanguage_def createItemNodes_def createNodeFromRawKontentItem_def
  addPreferredLanguageProperty_def alterRichTextElements_def
  getKontentItemLanguageVariantArtifact_def createNodeId_def getKontentItemNodeStringForId_def
  createNode_def putNode_def deleteNode_def getNode_def getNodes_def verbose_def warn_def
  toTemplateString_def startsWith_def isContentComponent_def substring_def Let_def

lemmas entry_defs = handleIncomingWebhook_def parseKontentWebhookBody_def chain_items_def
  itemsEvery_def
  chain_message_def truthy_def isKontentSupportedWebhook_def whenOperation_def
  touchPropagation_def touchItemType_def touchAllOfType_def getNodesByType_def touchNode_def

subsection \<open>Materialising a snapshot\<close>

lemma createNodeFromRawKontentItem_eq:
  "createNodeFromRawKontentItem env raw (includeRawContent cfg) lang a
     = (nodeFor env cfg lang raw, createNode (nodeFor env cfg lang raw) a)"
  by (simp add: createNodeFromRawKontentItem_def nodeFor_def Let_def)

lemma createModularNodes_eq:
  "createModularNodes env cfg lang ms (ids, a)
     = (ids @ map (\<lambda>(key, m). node_id (nodeFor env cfg lang m)) ms,
        fold createNode (map (\<lambda>(key, m). nodeFor env cfg lang m) ms) a)"
proof (induction ms arbitrary: ids a)
  case Nil
  show ?case by simp
next
  case (Cons km ms)
  obtain key m where km: "km = (key, m)" by (cases km)
  show ?case
    by (simp add: km createNodeFromRawKontentItem_eq Cons.IH)
qed

lemma createItemNodes_eq:
  "createItemNodes env cfg lang s ms (ids, a)
     = (ids @ map node_id (createdNodes env cfg lang s ms),
        fold createNode (createdNodes env cfg lang s ms) a)"
  by (simp add: createItemNodes_def createNodeFromRawKontentItem_eq createModularNodes_eq
      createdNodes_def split_def comp_def)

lemma fold_createNode:
  "fold createNode cs a
     = a\<lparr>nodes := fold putNode cs (nodes a), actions := actions a @ map CreateNode cs\<rparr>"
proof (induction cs arbitrary: a)
  case Nil
  show ?case by simp
next
  case (Cons c cs)
  have "fold createNode (c # cs) a = fold createNode cs (createNode c a)" by simp
  also have "\<dots> = (createNode c a)\<lparr>nodes := fold putNode cs (nodes (createNode c a)),
      actions := actions (createNode c a) @ map CreateNode cs\<rparr>"
    by (rule Cons.IH)
  also have "\<dots> = a\<lparr>nodes := fold putNode (c # cs) (nodes a),
      actions := actions a @ map CreateNode (c # cs)\<rparr>"
    by (simp add: createNode_def)
  finally show ?case .
qed

lemma node_id_nodeFor:
  "node_id (nodeFor env cfg lang raw)
     = createNodeId (getKontentItemNodeStringForId (system_id (system raw)) lang)"
  by (simp add: nodeFor_def getKontentItemLanguageVariantArtifact_def
      alterRichTextElements_def addPreferredLanguageProperty_def)

lemma preferred_language_nodeFor:
  "node_preferred_language (nodeFor env cfg lang raw) = Some lang"
  by (simp add: nodeFor_def getKontentItemLanguageVariantArtifact_def
      alterRichTextElements_def addPreferredLanguageProperty_def)

subsection \<open>The node store\<close>

lemma putNode_ids: "node_id ` set (putNode n ns) = insert (node_id n) (node_id ` set ns)"
  by (auto simp: putNode_def image_iff)

lemma fold_putNode_ids:
  "node_id ` set (fold putNode cs ns) = node_id ` set cs \<union> node_id ` set ns"
  by (induction cs arbitrary: ns) (auto simp: putNode_ids)

lemma getNode_None_iff: "getNode i a = None \<longleftrightarrow> i \<notin> node_id ` set (nodes a)"
  by (auto simp: getNode_def find_None_iff)

lemma fold_putNode_present_all:
  "n \<in> set cs \<Longrightarrow> node_id n \<in> node_id ` set (fold putNode cs ns)"
  by (simp add: fold_putNode_ids)

text \<open>
  Creating a list of nodes again in a store that holds them already leaves the store as it
  is: every stored node of a created id is the last node created under that id.
\<close>

lemma node_id_override: "node_id (override cs m) = node_id m"
  unfolding override_def by (induction cs arbitrary: m) simp_all

lemma override_Cons:
  "override (c # cs) m = override cs (if node_id c = node_id m then c else m)"
  by (simp add: override_def)

lemma override_snoc:
  "override (cs @ [c]) m = (if node_id c = node_id m then c else override cs m)"
  using node_id_override [of cs m] by (simp add: override_def)

lemma override_other: "node_id m \<notin> node_id ` set cs \<Longrightarrow> override cs m = m"
  by (induction cs arbitrary: m) (auto simp: override_Cons, simp add: override_def)

lemma putNode_present:
  "node_id c \<in> node_id ` set ns
     \<Longrightarrow> putNode c ns = map (\<lambda>m. if node_id c = node_id m then c else m) ns"
  by (auto simp: putNode_def image_iff)

lemma fold_putNode_present:
  "node_id ` set cs \<subseteq> node_id ` set ns \<Longrightarrow> fold putNode cs ns = map (override cs) ns"
proof (induction cs arbitrary: ns)
  case Nil
  show ?case by (simp add: override_def)
next
  case (Cons c cs)
  let ?f = "\<lambda>m. if node_id c = node_id m then c else m"
  from Cons.prems have c: "node_id c \<in> node_id ` set ns" by simp
  have "map node_id (map ?f ns) = map node_id ns" by (induction ns) simp_all
  then have "set (map node_id (map ?f ns)) = set (map node_id ns)" by (rule arg_cong)
  then have ids: "node_id ` set (map ?f ns) = node_id ` set ns" by (simp only: set_map)
  from Cons.prems have "node_id ` set cs \<subseteq> node_id ` set (map ?f ns)"
    unfolding ids by simp
  then have "fold putNode cs (map ?f ns) = map (override cs) (map ?f ns)"
    by (rule Cons.IH)
  then show ?case
    by (simp add: putNode_present [OF c] override_Cons comp_def)
qed

lemma fold_putNode_fixed:
  "m \<in> set (fold putNode cs ns) \<Longrightarrow> node_id m \<in> node_id ` set cs \<Longrightarrow> override cs m = m"
proof (induction cs arbitrary: m rule: rev_induct)
  case Nil
  then show ?case by simp
next
  case (snoc c cs)
  from snoc.prems(1) have m: "m \<in> set (putNode c (fold putNode cs ns))" by simp
  show ?case
  proof (cases "node_id c = node_id m")
    case True
    with m have "m = c" by (auto simp: putNode_def split: if_splits)
    then show ?thesis by (simp add: override_snoc)
  next
    case False
    with m have "m \<in> set (fold putNode cs ns)" by (auto simp: putNode_def split: if_splits)
    moreover from snoc.prems(2) False have "node_id m \<in> node_id ` set cs" by auto
    ultimately have "override cs m = m" by (rule snoc.IH)
    with False show ?thesis by (simp add: override_snoc)
  qed
qed

lemma fold_putNode_idem: "fold putNode cs (fold putNode cs ns) = fold putNode cs ns"
proof -
  have "node_id ` set cs \<subseteq> node_id ` set (fold putNode cs ns)"
    by (simp add: fold_putNode_ids)
  then have "fold putNode cs (fold putNode cs ns) = map (override cs) (fold putNode cs ns)"
    by (rule fold_putNode_present)
  also have "\<dots> = fold putNode cs ns"
  proof (rule map_idI)
    fix m assume "m \<in> set (fold putNode cs ns)"
    then show "override cs m = m"
      by (cases "node_id m \<in> node_id ` set cs") (simp_all add: fold_putNode_fixed override_other)
  qed
  finally show ?thesis .
qed

subsection \<open>The upsert handler\<close>

lemma upsertLanguage_eq:
  "upsertLanguage env cfg info lang (ids, a)
     = (ids @ map node_id (upsertCreated env cfg info [lang]),
        a\<lparr>nodes := fold putNode (upsertCreated env cfg info [lang]) (nodes a),
          actions := actions a @ map CreateNode (upsertCreated env cfg info [lang]),
          reporter := reporter a @ map (\<lambda>l. (VerboseLevel, VariantNotFound (item_id info) l))
            (filter (\<lambda>l. item (loadKontentItem env (item_id info) l) = None) [lang])\<rparr>)"
proof (cases "item (loadKontentItem env (item_id info) lang)")
  case None
  then show ?thesis
    by (simp add: upsertLanguage_def upsertCreated_def verbose_def)
next
  case (Some k)
  then show ?thesis
    by (simp add: upsertLanguage_def upsertCreated_def createItemNodes_eq fold_createNode Let_def)
qed

lemma upsertCreated_Cons:
  "upsertCreated env cfg info (l # ls)
     = upsertCreated env cfg info [l] @ upsertCreated env cfg info ls"
  by (simp add: upsertCreated_def)

lemma upsert_fold:
  "fold (upsertLanguage env cfg info) langs (ids, a)
     = (ids @ map node_id (upsertCreated env cfg info langs),
        a\<lparr>nodes := fold putNode (upsertCreated env cfg info langs) (nodes a),
          actions := actions a @ map CreateNode (upsertCreated env cfg info langs),
          reporter := reporter a @ map (\<lambda>l. (VerboseLevel, VariantNotFound (item_id info) l))
            (filter (\<lambda>l. item (loadKontentItem env (item_id info) l) = None) langs)\<rparr>)"
proof (induction langs arbitrary: ids a)
  case Nil
  show ?case by (simp add: upsertCreated_def)
next
  case (Cons l ls)
  have "fold (upsertLanguage env cfg info) (l # ls) (ids, a)
      = fold (upsertLanguage env cfg info) ls (upsertLanguage env cfg info l (ids, a))"
    by simp
  also have "\<dots> = (ids @ map node_id (upsertCreated env cfg info (l # ls)),
        a\<lparr>nodes := fold putNode (upsertCreated env cfg info (l # ls)) (nodes a),
          actions := actions a @ map CreateNode (upsertCreated env cfg info (l # ls)),
          reporter := reporter a @ map (\<lambda>l. (VerboseLevel, VariantNotFound (item_id info) l))
            (filter (\<lambda>l. item (loadKontentItem env (item_id info) l) = None) (l # ls))\<rparr>)"
    unfolding upsertLanguage_eq Cons.IH upsertCreated_Cons [of _ _ _ l ls]
    by simp
  finally show ?case .
qed

lemma handleUpsertItem_eq:
  assumes "firstItem a = Inr info" "includes_js (languageCodenames cfg) (item_language info)"
  shows "handleUpsertItem env cfg a
     = Inr (map node_id (upsertCreated env cfg info (languageCodenames cfg)),
        a\<lparr>nodes := fold putNode (upsertCreated env cfg info (languageCodenames cfg)) (nodes a),
          actions := actions a @ map CreateNode (upsertCreated env cfg info (languageCodenames cfg)),
          reporter := reporter a @ map (\<lambda>l. (VerboseLevel, VariantNotFound (item_id info) l))
            (filter (\<lambda>l. item (loadKontentItem env (item_id info) l) = None)
               (languageCodenames cfg))\<rparr>)"
  using assms by (simp add: handleUpsertItem_def upsert_fold)

lemma handleUpsertItem_guard:
  assumes "firstItem a = Inr info" "\<not> includes_js (languageCodenames cfg) (item_language info)"
  shows "handleUpsertItem env cfg a
     = Inr ([], verbose (LanguageNotConfigured (item_language info)) a)"
  using assms by (simp add: handleUpsertItem_def)

lemma firstItem_cong: "webhookBody a' = webhookBody a \<Longrightarrow> firstItem a' = firstItem a"
  by (simp add: firstItem_def)

lemma ex_eval_upsert:
  "handleUpsertItem (ex_env ex_fetch_home) (ex_cfg [''en'', ''cs''])
     (ex_api (ex_body [ex_item ''i1'' ''en''] (ex_message ''delivery_preview'' (JString ''upsert''))) [])
   = Inr ([NodeId (ItemNodeString ''i1'' ''en''), NodeId (ItemNodeString ''i2'' ''en''),
           NodeId (ItemNodeString ''i1'' ''cs''), NodeId (ItemNodeString ''i2'' ''cs'')],
          \<lparr>webhookBody = Some (ex_body [ex_item ''i1'' ''en''] (ex_message ''delivery_preview'' (JString ''upsert''))),
           nodes = [ex_node ''i1'' ''home'' ''en'' [], ex_node ''i2'' ''teaser'' ''en'' [],
                    ex_node ''i1'' ''home'' ''cs'' [], ex_node ''i2'' ''teaser'' ''cs'' []],
           actions = map CreateNode [ex_node ''i1'' ''home'' ''en'' [], ex_node ''i2'' ''teaser'' ''en'' [],
                    ex_node ''i1'' ''home'' ''cs'' [], ex_node ''i2'' ''teaser'' ''cs'' []],
           reporter = []\<rparr>)"
  by (simp add: handleUpsertItem_def firstItem_def ex_api_def ex_body_def ex_item_def ex_cfg_def
      includes_js_def upsertLanguage_def ex_env_def ex_fetch_home_def createItemNodes_def
      createNodeFromRawKontentItem_def addPreferredLanguageProperty_def alterRichTextElements_def
      getKontentItemLanguageVariantArtifact_def createNodeId_def getKontentItemNodeStringForId_def
      ex_kontent_item_def createNode_def putNode_def ex_node_def Let_def)

lemma handleIncomingWebhook_upsert:
  assumes "parseKontentWebhookBody a = Inr (Some w)" "message w = Some m"
    "isKontentSupportedWebhook m (projectId cfg)" "chain_items (Some w) = ItemsArray its"
    "upsertClassified m"
  shows "handleIncomingWebhook env cfg types a
       = (case handleUpsertItem env cfg (announced m its a) of
            Inl e \<Rightarrow> Inl e
          | Inr (ids, a3) \<Rightarrow> Inr ((), touchPropagation env cfg types [] a3))"
proof -
  have base: "handleIncomingWebhook env cfg types a
     = (if api_name m = JString ''delivery_preview'' then
          (case whenOperation (operation m = JString ''upsert'' \<or> operation m = JString ''restore'')
                  (handleUpsertItem env cfg) [] (announced m its a) of
             Inl e \<Rightarrow> Inl e
           | Inr (p1, a3) \<Rightarrow>
               (case whenOperation (operation m = JString ''archive'')
                       (handleDeleteItem env cfg) p1 a3 of
                  Inl e \<Rightarrow> Inl e
                | Inr (p2, a4) \<Rightarrow> Inr ((), touchPropagation env cfg types p2 a4)))
        else if api_name m = JString ''delivery_production'' then
          (case whenOperation (operation m = JString ''publish'')
                  (handleUpsertItem env cfg) [] (announced m its a) of
             Inl e \<Rightarrow> Inl e
           | Inr (p1, a3) \<Rightarrow>
               (case whenOperation (operation m = JString ''unpublish'')
                       (handleDeleteItem env cfg) p1 a3 of
                  Inl e \<Rightarrow> Inl e
                | Inr (p2, a4) \<Rightarrow> Inr ((), touchPropagation env cfg types p2 a4)))
        else Inr ((), verbose (Dump w) (verbose NotSupportedYet (announced m its a))))"
    by (simp add: handleIncomingWebhook_def assms(1-4) announced_def Let_def)
  show ?thesis
  proof (cases "handleUpsertItem env cfg (announced m its a)")
    case (Inl e)
    from assms(5) show ?thesis
      unfolding upsertClassified_def
      by (elim disjE conjE) (simp_all add: base whenOperation_def Inl)
  next
    case (Inr r)
    obtain ids a3 where r: "r = (ids, a3)" by (cases r)
    from assms(5) show ?thesis
      unfolding upsertClassified_def
      by (elim disjE conjE) (simp_all add: base whenOperation_def Inr r)
  qed
qed

lemma handleUpsertItem_twice:
  assumes "handleUpsertItem env cfg a = Inr (ids1, a1)"
  shows "\<exists>a2. handleUpsertItem env cfg a1 = Inr (ids1, a2) \<and> nodes a2 = nodes a1"
proof (cases "firstItem a")
  case (Inl e)
  with assms show ?thesis by (simp add: handleUpsertItem_def)
next
  case (Inr info)
  show ?thesis
  proof (cases "includes_js (languageCodenames cfg) (item_language info)")
    case False
    from assms have a1: "a1 = verbose (LanguageNotConfigured (item_language info)) a"
      and ids: "ids1 = []"
      by (simp_all add: handleUpsertItem_guard [OF Inr False])
    have "firstItem a1 = Inr info" unfolding a1 using Inr by (simp add: firstItem_def verbose_def)
    from handleUpsertItem_guard [OF this False, of env] show ?thesis
      by (simp add: ids verbose_def)
  next
    case True
    let ?C = "upsertCreated env cfg info (languageCodenames cfg)"
    from assms have ids: "ids1 = map node_id ?C" and n1: "nodes a1 = fold putNode ?C (nodes a)"
      and b1: "webhookBody a1 = webhookBody a"
      by (auto simp: handleUpsertItem_eq [OF Inr True])
    have "firstItem a1 = Inr info" using Inr b1 by (simp add: firstItem_def)
    from handleUpsertItem_eq [OF this True, of env] show ?thesis
      by (simp add: ids n1 fold_putNode_idem)
  qed
qed

text \<open>
  C1, as amended. For an event whose first item has the id \<open>I\<close> and a language that is one
  of the configured languages \<open>[L1, L2]\<close>, when the fetcher returns for both languages a
  snapshot of the item \<open>I\<close>, \<open>handleUpsertItem\<close> calls \<open>createNode\<close> for exactly the
  primary node and one node per entry of the modular content of \<open>L1\<close>, then the same for
  \<open>L2\<close>; the primary nodes have the ids of \<open>(I, L1)\<close> and \<open>(I, L2)\<close>; the ids of
  all these nodes are the list it returns, and each of them is in the store afterwards, tagged
  with the language of its turn.
\<close>

theorem upsert_two_languages:
  assumes "firstItem a = Inr itemInfo" and "item_id itemInfo = JString I"
    and "languageCodenames cfg = [L1, L2]"
    and "includes_js [L1, L2] (item_language itemInfo)"
    and "loadKontentItem env (JString I) L1 = \<lparr>item = Some s1, modularKontent = m1\<rparr>"
    and "loadKontentItem env (JString I) L2 = \<lparr>item = Some s2, modularKontent = m2\<rparr>"
    and "system_id (system s1) = I" and "system_id (system s2) = I"
  shows "\<exists>a'. handleUpsertItem env cfg a
            = Inr (map node_id (createdNodes env cfg L1 s1 m1 @ createdNodes env cfg L2 s2 m2), a')
      \<and> actions a'
          = actions a @ map CreateNode (createdNodes env cfg L1 s1 m1 @ createdNodes env cfg L2 s2 m2)
      \<and> createdNodes env cfg L1 s1 m1
          = nodeFor env cfg L1 s1 # map (\<lambda>(key, m). nodeFor env cfg L1 m) m1
      \<and> createdNodes env cfg L2 s2 m2
          = nodeFor env cfg L2 s2 # map (\<lambda>(key, m). nodeFor env cfg L2 m) m2
      \<and> node_id (nodeFor env cfg L1 s1) = createNodeId (getKontentItemNodeStringForId I L1)
      \<and> node_id (nodeFor env cfg L2 s2) = createNodeId (getKontentItemNodeStringForId I L2)
      \<and> (\<forall>n \<in> set (createdNodes env cfg L1 s1 m1 @ createdNodes env cfg L2 s2 m2).
            getNode (node_id n) a' \<noteq> None
            \<and> node_preferred_language n \<in> {Some L1, Some L2})"
proof -
  let ?C = "createdNodes env cfg L1 s1 m1 @ createdNodes env cfg L2 s2 m2"
  have C: "upsertCreated env cfg itemInfo (languageCodenames cfg) = ?C"
    by (simp add: upsertCreated_def assms)
  have none: "filter (\<lambda>l. item (loadKontentItem env (item_id itemInfo) l) = None)
               (languageCodenames cfg) = []"
    by (simp add: assms)
  from assms(4) have inc: "includes_js (languageCodenames cfg) (item_language itemInfo)"
    by (simp add: assms(3))
  let ?a' = "a\<lparr>nodes := fold putNode ?C (nodes a), actions := actions a @ map CreateNode ?C,
                reporter := reporter a @ []\<rparr>"
  have h: "handleUpsertItem env cfg a = Inr (map node_id ?C, ?a')"
    using handleUpsertItem_eq [OF assms(1) inc, of env] unfolding C none by simp
  have present: "getNode (node_id n) ?a' \<noteq> None" if "n \<in> set ?C" for n
    using fold_putNode_present_all [OF that, of "nodes a"] by (simp add: getNode_None_iff)
  have lang: "node_preferred_language n \<in> {Some L1, Some L2}" if "n \<in> set ?C" for n
    using that by (auto simp: createdNodes_def preferred_language_nodeFor)
  have ids: "node_id (nodeFor env cfg L1 s1) = createNodeId (getKontentItemNodeStringForId I L1)"
    "node_id (nodeFor env cfg L2 s2) = createNodeId (getKontentItemNodeStringForId I L2)"
    by (simp_all add: node_id_nodeFor assms)
  have acts: "actions ?a' = actions a @ map CreateNode ?C" by simp
  show ?thesis
    apply (rule exI [of _ ?a'])
    apply (intro conjI)
          apply (rule h)
         apply (rule acts)
        apply (simp add: createdNodes_def)
       apply (simp add: createdNodes_def)
      apply (rule ids(1))
     apply (rule ids(2))
    using present lang apply blast
    done
qed

theorem upsert_two_languages_witness:
  "firstItem (ex_api (ex_body [ex_item ''i1'' ''en'']
                (ex_message ''delivery_preview'' (JString ''upsert''))) [])
     = Inr (ex_item ''i1'' ''en'')
   \<and> includes_js [''en'', ''cs''] (item_language (ex_item ''i1'' ''en''))
   \<and> (\<exists>a'. handleUpsertItem (ex_env ex_fetch_home) (ex_cfg [''en'', ''cs''])
          (ex_api (ex_body [ex_item ''i1'' ''en'']
                     (ex_message ''delivery_preview'' (JString ''upsert''))) [])
        = Inr ([NodeId (ItemNodeString ''i1'' ''en''), NodeId (ItemNodeString ''i2'' ''en''),
                NodeId (ItemNodeString ''i1'' ''cs''), NodeId (ItemNodeString ''i2'' ''cs'')], a')
        \<and> actions a' = map CreateNode
             [ex_node ''i1'' ''home'' ''en'' [], ex_node ''i2'' ''teaser'' ''en'' [],
              ex_node ''i1'' ''home'' ''cs'' [], ex_node ''i2'' ''teaser'' ''cs'' []])"
proof -
  let ?a = "ex_api (ex_body [ex_item ''i1'' ''en'']
                (ex_message ''delivery_preview'' (JString ''upsert''))) []"
  let ?s = "ex_kontent_item ''i1'' ''home'' []"
  let ?m = "[(''teaser'', ex_kontent_item ''i2'' ''teaser'' [])]"
  let ?env = "ex_env ex_fetch_home" and ?cfg = "ex_cfg [''en'', ''cs'']"
  have f: "firstItem ?a = Inr (ex_item ''i1'' ''en'')"
    by (simp add: firstItem_def ex_defs)
  have i: "item_id (ex_item ''i1'' ''en'') = JString ''i1''" by (simp add: ex_defs)
  have l: "languageCodenames ?cfg = [''en'', ''cs'']" by (simp add: ex_defs)
  have inc: "includes_js [''en'', ''cs''] (item_language (ex_item ''i1'' ''en''))"
    by (simp add: includes_js_def ex_defs)
  have l1: "loadKontentItem ?env (JString ''i1'') ''en'' = \<lparr>item = Some ?s, modularKontent = ?m\<rparr>"
    by (simp add: ex_env_def ex_fetch_home_def)
  have l2: "loadKontentItem ?env (JString ''i1'') ''cs'' = \<lparr>item = Some ?s, modularKontent = ?m\<rparr>"
    by (simp add: ex_env_def ex_fetch_home_def)
  have s: "system_id (system ?s) = ''i1''" by (simp add: ex_defs)
  have n: "nodeFor ?env ?cfg l (ex_kontent_item j c els) = ex_node j c l els" for l j c els
    by (simp add: nodeFor_def run_defs ex_defs)
  from upsert_two_languages [OF f i l inc l1 l2 s s]
  obtain a' where "handleUpsertItem ?env ?cfg ?a
            = Inr (map node_id (createdNodes ?env ?cfg ''en'' ?s ?m @ createdNodes ?env ?cfg ''cs'' ?s ?m), a')"
     and "actions a'
          = actions ?a @ map CreateNode (createdNodes ?env ?cfg ''en'' ?s ?m @ createdNodes ?env ?cfg ''cs'' ?s ?m)"
    by blast
  then have "handleUpsertItem ?env ?cfg ?a
        = Inr ([NodeId (ItemNodeString ''i1'' ''en''), NodeId (ItemNodeString ''i2'' ''en''),
                NodeId (ItemNodeString ''i1'' ''cs''), NodeId (ItemNodeString ''i2'' ''cs'')], a')
        \<and> actions a' = map CreateNode
             [ex_node ''i1'' ''home'' ''en'' [], ex_node ''i2'' ''teaser'' ''en'' [],
              ex_node ''i1'' ''home'' ''cs'' [], ex_node ''i2'' ''teaser'' ''cs'' []]"
    by (simp add: createdNodes_def n) (simp add: ex_node_def ex_api_def)
  with f inc show ?thesis by blast
qed

text \<open>
  C1 as stated fails: for an event whose own language \<open>de\<close> is not configured, the handler
  returns at its guard and creates nothing, although the fetcher has a snapshot for both
  configured languages.
\<close>

theorem upsert_unconfigured_language_counterexample:
  "item (ex_fetch_home (JString ''i1'') ''en'') \<noteq> None
   \<and> item (ex_fetch_home (JString ''i1'') ''cs'') \<noteq> None
   \<and> handleUpsertItem (ex_env ex_fetch_home) (ex_cfg [''en'', ''cs''])
        (ex_api (ex_body [ex_item ''i1'' ''de'']
                   (ex_message ''delivery_preview'' (JString ''upsert''))) [])
      = Inr ([],
          \<lparr>webhookBody = Some (ex_body [ex_item ''i1'' ''de'']
                                (ex_message ''delivery_preview'' (JString ''upsert''))),
           nodes = [], actions = [],
           reporter = [(VerboseLevel, LanguageNotConfigured (JString ''de''))]\<rparr>)"
  by (simp add: run_defs ex_defs)

subsection \<open>Touch propagation\<close>

text \<open>
  C8. After the fanout the nodes of the registered item types whose id is in the processed-id
  set are to be touched. The ids the handlers return never reach the loop that touches:
  \<open>processedItemIds\<close> is still empty there. In this run the upsert creates the nodes of
  \<open>i1\<close> and \<open>i2\<close>, both of the registered type, and neither is touched; the taxonomy
  node is.
\<close>

theorem processed_ids_not_touched:
  "handleIncomingWebhook (ex_env ex_fetch_home) (ex_cfg [''en'']) [''kontent_item_article'']
     (ex_api (ex_body [ex_item ''i1'' ''en''] (ex_message ''delivery_preview'' (JString ''upsert'')))
        [ex_taxonomy])
   = Inr ((),
      \<lparr>webhookBody = Some (ex_body [ex_item ''i1'' ''en'']
                            (ex_message ''delivery_preview'' (JString ''upsert''))),
       nodes = [ex_taxonomy, ex_node ''i1'' ''home'' ''en'' [], ex_node ''i2'' ''teaser'' ''en'' []],
       actions = [CreateNode (ex_node ''i1'' ''home'' ''en'' []),
                  CreateNode (ex_node ''i2'' ''teaser'' ''en'' []),
                  TouchNode (node_id ex_taxonomy)],
       reporter = [(VerboseLevel, Handling (JString ''upsert'') (JString ''delivery_preview''))]\<rparr>)"
  by (simp add: entry_defs run_defs ex_defs)

text \<open>
  What the three loops do for any list of processed ids: they touch, of the registered item
  types, the stored nodes whose id is in the list, then every taxonomy node and every type
  node when their inclusion is configured, and change nothing else.
\<close>

lemma fold_touchNode:
  "fold (\<lambda>n. touchNode (node_id n)) ns a = a\<lparr>actions := actions a @ map (\<lambda>n. TouchNode (node_id n)) ns\<rparr>"
proof (induction ns arbitrary: a)
  case Nil
  show ?case by simp
next
  case (Cons n ns)
  have "fold (\<lambda>n. touchNode (node_id n)) (n # ns) a
      = fold (\<lambda>n. touchNode (node_id n)) ns (touchNode (node_id n) a)" by simp
  also have "\<dots> = (touchNode (node_id n) a)\<lparr>actions := actions (touchNode (node_id n) a)
      @ map (\<lambda>n. TouchNode (node_id n)) ns\<rparr>" by (rule Cons.IH)
  also have "\<dots> = a\<lparr>actions := actions a @ map (\<lambda>n. TouchNode (node_id n)) (n # ns)\<rparr>"
    by (simp add: touchNode_def)
  finally show ?case .
qed

lemma touchItemType_eq:
  "touchItemType P t a = a\<lparr>actions := actions a @ map TouchNode (map node_id
      (filter (\<lambda>i. node_id i \<in> set P) (filter (\<lambda>m. internal_type m = t) (nodes a))))\<rparr>"
  by (simp add: touchItemType_def fold_touchNode getNodesByType_def comp_def)

lemma touchAllOfType_eq:
  "touchAllOfType t a = a\<lparr>actions := actions a @ map TouchNode (map node_id
      (filter (\<lambda>m. internal_type m = t) (nodes a)))\<rparr>"
  by (simp add: touchAllOfType_def fold_touchNode getNodesByType_def comp_def)

lemma fold_touchItemType:
  "fold (touchItemType P) ts a = a\<lparr>actions := actions a @ map TouchNode (concat (map (\<lambda>ty. map node_id
      (filter (\<lambda>i. node_id i \<in> set P) (filter (\<lambda>m. internal_type m = ty) (nodes a)))) ts))\<rparr>"
proof (induction ts arbitrary: a)
  case Nil
  show ?case by simp
next
  case (Cons t ts)
  have "fold (touchItemType P) (t # ts) a = fold (touchItemType P) ts (touchItemType P t a)"
    by simp
  also have "\<dots> = (touchItemType P t a)\<lparr>actions := actions (touchItemType P t a)
     @ map TouchNode (concat (map (\<lambda>ty. map node_id
      (filter (\<lambda>i. node_id i \<in> set P) (filter (\<lambda>m. internal_type m = ty)
         (nodes (touchItemType P t a))))) ts))\<rparr>"
    by (rule Cons.IH)
  also have "\<dots> = a\<lparr>actions := actions a @ map TouchNode (concat (map (\<lambda>ty. map node_id
      (filter (\<lambda>i. node_id i \<in> set P) (filter (\<lambda>m. internal_type m = ty) (nodes a)))) (t # ts)))\<rparr>"
    by (simp add: touchItemType_eq)
  finally show ?case .
qed

lemma touchPropagation_eq:
  "touchPropagation env cfg ts P a
     = a\<lparr>actions := actions a @ map TouchNode (touchedIds env cfg ts P (nodes a))\<rparr>"
  by (simp add: touchPropagation_def touchedIds_def fold_touchItemType touchAllOfType_eq Let_def)

subsection \<open>The guard on the language of the event\<close>

lemma handleIncomingWebhook_delete:
  assumes "parseKontentWebhookBody a = Inr (Some w)" "message w = Some m"
    "isKontentSupportedWebhook m (projectId cfg)" "chain_items (Some w) = ItemsArray its"
    "deleteClassified m"
  shows "handleIncomingWebhook env cfg types a
       = (case handleDeleteItem env cfg (announced m its a) of
            Inl e \<Rightarrow> Inl e
          | Inr (ids, a3) \<Rightarrow> Inr ((), touchPropagation env cfg types [] a3))"
proof -
  have base: "handleIncomingWebhook env cfg types a
     = (if api_name m = JString ''delivery_preview'' then
          (case whenOperation (operation m = JString ''upsert'' \<or> operation m = JString ''restore'')
                  (handleUpsertItem env cfg) [] (announced m its a) of
             Inl e \<Rightarrow> Inl e
           | Inr (p1, a3) \<Rightarrow>
               (case whenOperation (operation m = JString ''archive'')
                       (handleDeleteItem env cfg) p1 a3 of
                  Inl e \<Rightarrow> Inl e
                | Inr (p2, a4) \<Rightarrow> Inr ((), touchPropagation env cfg types p2 a4)))
        else if api_name m = JString ''delivery_production'' then
          (case whenOperation (operation m = JString ''publish'')
                  (handleUpsertItem env cfg) [] (announced m its a) of
             Inl e \<Rightarrow> Inl e
           | Inr (p1, a3) \<Rightarrow>
               (case whenOperation (operation m = JString ''unpublish'')
                       (handleDeleteItem env cfg) p1 a3 of
                  Inl e \<Rightarrow> Inl e
                | Inr (p2, a4) \<Rightarrow> Inr ((), touchPropagation env cfg types p2 a4)))
        else Inr ((), verbose (Dump w) (verbose NotSupportedYet (announced m its a))))"
    by (simp add: handleIncomingWebhook_def assms(1-4) announced_def Let_def)
  show ?thesis
  proof (cases "handleDeleteItem env cfg (announced m its a)")
    case (Inl e)
    from assms(5) show ?thesis
      unfolding deleteClassified_def
      by (elim disjE conjE) (simp_all add: base whenOperation_def Inl)
  next
    case (Inr r)
    obtain ids a3 where r: "r = (ids, a3)" by (cases r)
    from assms(5) show ?thesis
      unfolding deleteClassified_def
      by (elim disjE conjE) (simp_all add: base whenOperation_def Inr r)
  qed
qed

lemma supported_classified:
  "isKontentSupportedWebhook m p \<Longrightarrow> upsertClassified m \<or> deleteClassified m"
  using supported_cases [of m p] unfolding upsertClassified_def deleteClassified_def by blast

lemma firstItem_announced: "firstItem (announced m its a) = firstItem a"
  by (simp add: firstItem_def announced_def verbose_def warn_def Let_def)

lemma handleDeleteItem_guard:
  assumes "firstItem a = Inr info" "\<not> includes_js (languageCodenames cfg) (item_language info)"
  shows "handleDeleteItem env cfg a
     = Inr ([], verbose (LanguageNotConfigured (item_language info)) a)"
  using assms by (simp add: handleDeleteItem_def)

text \<open>
  C2, as amended. For a supported event whose own language is not in
  \<open>languageCodenames\<close>, both handlers report the language and return the empty list at
  once: no configured language is fetched or reconciled. The run of
  \<open>handleIncomingWebhook\<close> leaves the node store as it was and calls nothing on
  \<open>api.actions\<close> but the touches of the last stage.
\<close>

theorem unconfigured_language_no_fanout:
  assumes "parseKontentWebhookBody a = Inr (Some w)" and "message w = Some m"
    and "isKontentSupportedWebhook m (projectId cfg)"
    and "firstItem a = Inr itemInfo"
    and "\<not> includes_js (languageCodenames cfg) (item_language itemInfo)"
  shows "handleUpsertItem env cfg a
           = Inr ([], verbose (LanguageNotConfigured (item_language itemInfo)) a)
       \<and> handleDeleteItem env cfg a
           = Inr ([], verbose (LanguageNotConfigured (item_language itemInfo)) a)
       \<and> (\<exists>a'. handleIncomingWebhook env cfg itemTypes a = Inr ((), a')
             \<and> nodes a' = nodes a
             \<and> actions a' = actions a @ map TouchNode (touchedIds env cfg itemTypes [] (nodes a))
             \<and> last (reporter a') = (VerboseLevel, LanguageNotConfigured (item_language itemInfo)))"
proof -
  let ?r = "LanguageNotConfigured (item_language itemInfo)"
  from assms(1) obtain its where its: "chain_items (Some w) = ItemsArray its"
    by (auto simp: parseKontentWebhookBody_Some_iff)
  let ?a2 = "announced m its a"
  have f2: "firstItem ?a2 = Inr itemInfo" using assms(4) by (simp add: firstItem_announced)
  have u: "handleUpsertItem env cfg ?a2 = Inr ([], verbose ?r ?a2)"
    using f2 assms(5) by (rule handleUpsertItem_guard)
  have d: "handleDeleteItem env cfg ?a2 = Inr ([], verbose ?r ?a2)"
    using f2 assms(5) by (rule handleDeleteItem_guard)
  have h: "handleIncomingWebhook env cfg itemTypes a
             = Inr ((), touchPropagation env cfg itemTypes [] (verbose ?r ?a2))"
  proof -
    from supported_classified [OF assms(3)] show ?thesis
    proof
      assume "upsertClassified m"
      from handleIncomingWebhook_upsert [OF assms(1-3) its this, of env itemTypes]
      show ?thesis by (simp add: u)
    next
      assume "deleteClassified m"
      from handleIncomingWebhook_delete [OF assms(1-3) its this, of env itemTypes]
      show ?thesis by (simp add: d)
    qed
  qed
  have n: "nodes (verbose ?r ?a2) = nodes a" "actions (verbose ?r ?a2) = actions a"
    "last (reporter (verbose ?r ?a2)) = (VerboseLevel, ?r)"
    by (simp_all add: verbose_def announced_def warn_def Let_def)
  have "\<exists>a'. handleIncomingWebhook env cfg itemTypes a = Inr ((), a')
             \<and> nodes a' = nodes a
             \<and> actions a' = actions a @ map TouchNode (touchedIds env cfg itemTypes [] (nodes a))
             \<and> last (reporter a') = (VerboseLevel, ?r)"
    unfolding h touchPropagation_eq using n by simp
  with handleUpsertItem_guard [OF assms(4,5), of env] handleDeleteItem_guard [OF assms(4,5), of env]
  show ?thesis by blast
qed

theorem unconfigured_language_no_fanout_witness:
  "parseKontentWebhookBody
     (ex_api (ex_body [ex_item ''i1'' ''de'']
                (ex_message ''delivery_production'' (JString ''unpublish'')))
        [ex_node ''i1'' ''home'' ''en'' []])
     = Inr (Some (ex_body [ex_item ''i1'' ''de'']
              (ex_message ''delivery_production'' (JString ''unpublish''))))
   \<and> isKontentSupportedWebhook (ex_message ''delivery_production'' (JString ''unpublish''))
        (projectId (ex_cfg [''en'', ''cs'']))
   \<and> \<not> includes_js (languageCodenames (ex_cfg [''en'', ''cs'']))
          (item_language (ex_item ''i1'' ''de''))
   \<and> handleDeleteItem (ex_env ex_fetch_none) (ex_cfg [''en'', ''cs''])
        (ex_api (ex_body [ex_item ''i1'' ''de'']
                   (ex_message ''delivery_production'' (JString ''unpublish'')))
           [ex_node ''i1'' ''home'' ''en'' []])
      = Inr ([],
          \<lparr>webhookBody = Some (ex_body [ex_item ''i1'' ''de'']
                                (ex_message ''delivery_production'' (JString ''unpublish''))),
           nodes = [ex_node ''i1'' ''home'' ''en'' []], actions = [],
           reporter = [(VerboseLevel, LanguageNotConfigured (JString ''de''))]\<rparr>)
   \<and> (\<exists>a'. handleIncomingWebhook (ex_env ex_fetch_none) (ex_cfg [''en'', ''cs''])
          [''kontent_item_article'']
          (ex_api (ex_body [ex_item ''i1'' ''de'']
                     (ex_message ''delivery_production'' (JString ''unpublish'')))
             [ex_node ''i1'' ''home'' ''en'' []])
        = Inr ((), a') \<and> nodes a' = [ex_node ''i1'' ''home'' ''en'' []] \<and> actions a' = [])"
proof -
  let ?m = "ex_message ''delivery_production'' (JString ''unpublish'')"
  let ?b = "ex_body [ex_item ''i1'' ''de''] ?m"
  let ?a = "ex_api ?b [ex_node ''i1'' ''home'' ''en'' []]"
  let ?cfg = "ex_cfg [''en'', ''cs'']"
  have p: "parseKontentWebhookBody ?a = Inr (Some ?b)"
    by (simp add: parseKontentWebhookBody_def chain_items_def chain_message_def truthy_def
        itemsEvery_def ex_defs)
  have m: "message ?b = Some ?m" by (simp add: ex_body_def)
  have s: "isKontentSupportedWebhook ?m (projectId ?cfg)"
    by (simp add: isKontentSupportedWebhook_def includes_js_def ex_defs)
  have f: "firstItem ?a = Inr (ex_item ''i1'' ''de'')" by (simp add: firstItem_def ex_defs)
  have i: "\<not> includes_js (languageCodenames ?cfg) (item_language (ex_item ''i1'' ''de''))"
    by (simp add: includes_js_def ex_defs)
  note t = unconfigured_language_no_fanout
    [OF p m s f i, of "ex_env ex_fetch_none" "[''kontent_item_article'']"]
  have tn: "touchedIds (ex_env ex_fetch_none) ?cfg [''kontent_item_article''] [] (nodes ?a) = []"
    by (simp add: touchedIds_def ex_defs)
  from t have d: "handleDeleteItem (ex_env ex_fetch_none) ?cfg ?a
      = Inr ([], verbose (LanguageNotConfigured (item_language (ex_item ''i1'' ''de''))) ?a)"
    by blast
  from t obtain a' where "handleIncomingWebhook (ex_env ex_fetch_none) ?cfg
          [''kontent_item_article''] ?a = Inr ((), a')" "nodes a' = nodes ?a"
     "actions a' = actions ?a @ map TouchNode
         (touchedIds (ex_env ex_fetch_none) ?cfg [''kontent_item_article''] [] (nodes ?a))"
    by blast
  then have e: "\<exists>a'. handleIncomingWebhook (ex_env ex_fetch_none) ?cfg
          [''kontent_item_article''] ?a = Inr ((), a')
        \<and> nodes a' = [ex_node ''i1'' ''home'' ''en'' []] \<and> actions a' = []"
    unfolding tn by (simp add: ex_api_def)
  from d have d': "handleDeleteItem (ex_env ex_fetch_none) ?cfg ?a
      = Inr ([], \<lparr>webhookBody = Some ?b,
           nodes = [ex_node ''i1'' ''home'' ''en'' []], actions = [],
           reporter = [(VerboseLevel, LanguageNotConfigured (JString ''de''))]\<rparr>)"
    by (simp add: verbose_def ex_api_def ex_item_def)
  from p s i d' e show ?thesis by blast
qed

text \<open>
  C2 as stated fails: the event is supported, its language \<open>de\<close> is not configured, the
  remote state has a snapshot of the item for the configured language \<open>en\<close>, and the run
  creates no node.
\<close>

theorem fanout_unconfigured_language_counterexample:
  "item (ex_fetch_home (JString ''i1'') ''en'') \<noteq> None
   \<and> handleIncomingWebhook (ex_env ex_fetch_home) (ex_cfg [''en'', ''cs''])
        [''kontent_item_article'']
        (ex_api (ex_body [ex_item ''i1'' ''de'']
                   (ex_message ''delivery_preview'' (JString ''upsert''))) [])
      = Inr ((),
          \<lparr>webhookBody = Some (ex_body [ex_item ''i1'' ''de'']
                                (ex_message ''delivery_preview'' (JString ''upsert''))),
           nodes = [], actions = [],
           reporter = [(VerboseLevel, Handling (JString ''upsert'') (JString ''delivery_preview'')),
                       (VerboseLevel, LanguageNotConfigured (JString ''de''))]\<rparr>)"
  by (simp add: entry_defs run_defs ex_defs)

subsection \<open>The delete handler\<close>

text \<open>
  C3. When the fetcher returns no snapshot for a configured language and the store has no node
  for the item and that language, \<open>handleDeleteItem\<close> is to go on without an error. It
  throws: \<open>elements\<close> is read from the result of the lookup before the test
  \<^verbatim>\<open>if (node)\<close>. The second run is the archival of an item stored for \<open>en\<close> only,
  with \<open>en\<close> and \<open>cs\<close> configured: the node of \<open>en\<close> is deleted, and the turn of
  \<open>cs\<close> throws.
\<close>

theorem delete_without_local_node_throws:
  "handleDeleteItem (ex_env ex_fetch_none) (ex_cfg [''en''])
     (ex_api (ex_body [ex_item ''i1'' ''en'']
                (ex_message ''delivery_preview'' (JString ''archive''))) [])
   = Inl (TypeError,
        ex_api (ex_body [ex_item ''i1'' ''en'']
                  (ex_message ''delivery_preview'' (JString ''archive''))) [])
   \<and> handleIncomingWebhook (ex_env ex_fetch_none) (ex_cfg [''en'', ''cs''])
        [''kontent_item_article'']
        (ex_api (ex_body [ex_item ''i1'' ''en'']
                   (ex_message ''delivery_preview'' (JString ''archive'')))
           [ex_node ''i1'' ''home'' ''en'' []])
      = Inl (TypeError,
          \<lparr>webhookBody = Some (ex_body [ex_item ''i1'' ''en'']
                                (ex_message ''delivery_preview'' (JString ''archive''))),
           nodes = [], actions = [DeleteNode (ex_node ''i1'' ''home'' ''en'' [])],
           reporter = [(VerboseLevel,
             Handling (JString ''archive'') (JString ''delivery_preview''))]\<rparr>)"
  by (simp add: entry_defs run_defs ex_defs)

text \<open>
  One turn of the loop, in closed form. Past its guard \<open>handleDeleteItem\<close> is the loop.
\<close>

lemma handleDeleteItem_loop:
  assumes "firstItem a = Inr info" "includes_js (languageCodenames cfg) (item_language info)"
  shows "handleDeleteItem env cfg a = deleteLoop env cfg info (languageCodenames cfg) ([], a)"
  using assms by (simp add: handleDeleteItem_def)

lemma candidateFor_system:
  "candidateFor K n c = Some cand \<Longrightarrow> \<exists>s. node_system cand = Some s \<and> system_codename s = c"
  by (auto simp: candidateFor_def find_Some_iff split: option.splits)

lemma isContentComponent_candidate:
  assumes "candidateFor K n c = Some cand"
  shows "\<exists>b. isContentComponent cand = Inr b"
  using candidateFor_system [OF assms] by (auto simp: isContentComponent_def)

lemma componentTargets_Cons:
  "componentTargets K n (c # cs)
     = (case candidateFor K n c of
          None \<Rightarrow> []
        | Some candidate \<Rightarrow> if isContentComponent candidate = Inr True then [candidate] else [])
       @ componentTargets K n cs"
  by (simp add: componentTargets_def)

lemma removeComponents_eq:
  "removeComponents K n cs (ids, a)
     = Inr (ids @ map node_id (componentTargets K n cs), fold deleteNode (componentTargets K n cs) a)"
proof (induction cs arbitrary: ids a)
  case Nil
  show ?case by (simp add: componentTargets_def)
next
  case (Cons c cs)
  show ?case
  proof (cases "candidateFor K n c")
    case None
    then have "removeComponents K n (c # cs) (ids, a) = removeComponents K n cs (ids, a)"
      by (simp add: candidateFor_def)
    then show ?thesis by (simp add: Cons.IH componentTargets_Cons None)
  next
    case (Some cand)
    from isContentComponent_candidate [OF Some] obtain b where b: "isContentComponent cand = Inr b" ..
    show ?thesis
    proof (cases b)
      case True
      with Some b have "removeComponents K n (c # cs) (ids, a)
        = removeComponents K n cs (ids @ [node_id cand], deleteNode cand a)"
        by (simp add: candidateFor_def)
      then show ?thesis using Some b True by (simp add: Cons.IH componentTargets_Cons)
    next
      case False
      with Some b have "removeComponents K n (c # cs) (ids, a) = removeComponents K n cs (ids, a)"
        by (simp add: candidateFor_def)
      then show ?thesis using Some b False by (simp add: Cons.IH componentTargets_Cons)
    qed
  qed
qed

lemma fold_deleteNode:
  "fold deleteNode T a
     = a\<lparr>nodes := filter (\<lambda>m. node_id m \<notin> node_id ` set T) (nodes a),
         actions := actions a @ map DeleteNode T\<rparr>"
proof (induction T arbitrary: a)
  case Nil
  show ?case by simp
next
  case (Cons t T)
  have "fold deleteNode (t # T) a = fold deleteNode T (deleteNode t a)" by simp
  also have "\<dots> = (deleteNode t a)\<lparr>nodes := filter (\<lambda>m. node_id m \<notin> node_id ` set T)
       (nodes (deleteNode t a)), actions := actions (deleteNode t a) @ map DeleteNode T\<rparr>"
    by (rule Cons.IH)
  also have "\<dots> = a\<lparr>nodes := filter (\<lambda>m. node_id m \<notin> node_id ` set (t # T)) (nodes a),
         actions := actions a @ map DeleteNode (t # T)\<rparr>"
    by (simp add: deleteNode_def conj_commute)
  finally show ?case .
qed

lemma deleteLanguage_absent:
  assumes "item (loadKontentItem env (item_id info) L) = None"
    and "getNode (createNodeId (getKontentItemNodeStringForId (toTemplateString (item_id info)) L)) a
           = Some n"
  shows "deleteLanguage env cfg info L (ids, a)
     = Inr (ids @ map node_id (componentTargets (kontentItemNodesOf env a) n (richTextCodenames env n)
                                 @ [n]),
        a\<lparr>nodes := filter (\<lambda>m. node_id m \<notin> node_id `
                   set (componentTargets (kontentItemNodesOf env a) n (richTextCodenames env n) @ [n]))
                 (nodes a),
          actions := actions a @ map DeleteNode
             (componentTargets (kontentItemNodesOf env a) n (richTextCodenames env n) @ [n])\<rparr>)"
proof -
  let ?T = "componentTargets (kontentItemNodesOf env a) n (richTextCodenames env n)"
  have "deleteLanguage env cfg info L (ids, a)
      = (case removeComponents (kontentItemNodesOf env a) n (richTextCodenames env n) (ids, a) of
           Inl e \<Rightarrow> Inl e
         | Inr (ids', a') \<Rightarrow> Inr (ids' @ [node_id n], deleteNode n a'))"
    using assms by (simp add: deleteLanguage_def kontentItemNodesOf_def richTextCodenames_def Let_def)
  also have "\<dots> = Inr (ids @ map node_id ?T @ [node_id n], deleteNode n (fold deleteNode ?T a))"
    by (simp add: removeComponents_eq)
  also have "deleteNode n (fold deleteNode ?T a) = fold deleteNode (?T @ [n]) a" by simp
  finally show ?thesis by (simp only: fold_deleteNode map_append list.map)
qed

lemma deleteLanguage_absent_throws:
  assumes "item (loadKontentItem env (item_id info) L) = None"
    and "getNode (createNodeId (getKontentItemNodeStringForId (toTemplateString (item_id info)) L)) a
           = None"
  shows "deleteLanguage env cfg info L (ids, a) = Inl (TypeError, a)"
  using assms by (simp add: deleteLanguage_def Let_def)

lemma deleteLanguage_present:
  assumes "loadKontentItem env (item_id info) L = \<lparr>item = Some s, modularKontent = mk\<rparr>"
  shows "deleteLanguage env cfg info L (ids, a)
     = Inr (ids @ map node_id (createdNodes env cfg L s mk),
            a\<lparr>nodes := fold putNode (createdNodes env cfg L s mk) (nodes a),
              actions := actions a @ map CreateNode (createdNodes env cfg L s mk)\<rparr>)"
  using assms by (simp add: deleteLanguage_def Let_def createItemNodes_eq fold_createNode)

lemma componentTargets_iff:
  "cand \<in> set (componentTargets K n cs)
     \<longleftrightarrow> (\<exists>c \<in> set cs. candidateFor K n c = Some cand \<and> isContentComponent cand = Inr True)"
proof (induction cs)
  case Nil
  show ?case by (simp add: componentTargets_def)
next
  case (Cons c cs)
  show ?case
    by (cases "candidateFor K n c") (auto simp: componentTargets_Cons Cons.IH)
qed

lemmas ex_node_defs = ex_home_def ex_teaser_def ex_linked_def ex_promo_cs_def ex_other_def
  ex_teaser_plain_def

text \<open>
  C4, as amended. In the turn of the loop of \<open>handleDeleteItem\<close> for a language \<open>L\<close>
  for which the fetcher returns no snapshot, when the store has the node \<open>n\<close> of the item
  and \<open>L\<close>: the turn returns, \<open>n\<close> is not stored afterwards, and the store keeps, in
  order, exactly the nodes that have neither the id of \<open>n\<close> nor the id of a deleted
  candidate. The candidate of a codename referenced by a rich text element of \<open>n\<close> is the
  first item node of the store with that codename and the preferred language marker of
  \<open>n\<close>; it is deleted if and only if characters 14 and 15 of its item id are \<open>01\<close>.
\<close>

theorem delete_absent_cascade:
  assumes "item (loadKontentItem env (item_id itemInfo) L) = None"
    and "getNode (createNodeId (getKontentItemNodeStringForId
                    (toTemplateString (item_id itemInfo)) L)) a = Some n"
  shows "\<exists>ids' a'. deleteLanguage env cfg itemInfo L (ids, a) = Inr (ids', a')
     \<and> getNode (node_id n) a' = None
     \<and> nodes a' = filter (\<lambda>m. node_id m \<noteq> node_id n
           \<and> \<not> (\<exists>c \<in> set (richTextCodenames env n). \<exists>cand.
                   candidateFor (kontentItemNodesOf env a) n c = Some cand
                   \<and> isContentComponent cand = Inr True
                   \<and> node_id cand = node_id m)) (nodes a)"
proof -
  let ?T = "componentTargets (kontentItemNodesOf env a) n (richTextCodenames env n)"
  let ?a' = "a\<lparr>nodes := filter (\<lambda>m. node_id m \<notin> node_id ` set (?T @ [n])) (nodes a),
          actions := actions a @ map DeleteNode (?T @ [n])\<rparr>"
  have h: "deleteLanguage env cfg itemInfo L (ids, a) = Inr (ids @ map node_id (?T @ [n]), ?a')"
    using assms by (rule deleteLanguage_absent)
  have g: "getNode (node_id n) ?a' = None"
    by (auto simp: getNode_None_iff)
  have t: "node_id m \<in> node_id ` set ?T
     \<longleftrightarrow> (\<exists>c \<in> set (richTextCodenames env n). \<exists>cand.
                   candidateFor (kontentItemNodesOf env a) n c = Some cand
                   \<and> isContentComponent cand = Inr True
                   \<and> node_id cand = node_id m)" for m
  proof -
    have "node_id m \<in> node_id ` set ?T
       \<longleftrightarrow> (\<exists>cand. cand \<in> set ?T \<and> node_id cand = node_id m)"
      by (simp only: image_iff Bex_def eq_commute [of "node_id m"])
    also have "\<dots> \<longleftrightarrow> (\<exists>cand. (\<exists>c \<in> set (richTextCodenames env n).
                   candidateFor (kontentItemNodesOf env a) n c = Some cand
                   \<and> isContentComponent cand = Inr True) \<and> node_id cand = node_id m)"
      by (simp only: componentTargets_iff)
    also have "\<dots> \<longleftrightarrow> (\<exists>c \<in> set (richTextCodenames env n). \<exists>cand.
                   candidateFor (kontentItemNodesOf env a) n c = Some cand
                   \<and> isContentComponent cand = Inr True
                   \<and> node_id cand = node_id m)"
      by blast
    finally show ?thesis .
  qed
  have eq: "(node_id m \<notin> node_id ` set (?T @ [n]))
     \<longleftrightarrow> (node_id m \<noteq> node_id n
           \<and> \<not> (\<exists>c \<in> set (richTextCodenames env n). \<exists>cand.
                   candidateFor (kontentItemNodesOf env a) n c = Some cand
                   \<and> isContentComponent cand = Inr True
                   \<and> node_id cand = node_id m))" for m
    unfolding t [symmetric] by auto
  have "nodes ?a' = filter (\<lambda>m. node_id m \<notin> node_id ` set (?T @ [n])) (nodes a)"
    by simp
  also have "\<dots> = filter (\<lambda>m. node_id m \<noteq> node_id n
           \<and> \<not> (\<exists>c \<in> set (richTextCodenames env n). \<exists>cand.
                   candidateFor (kontentItemNodesOf env a) n c = Some cand
                   \<and> isContentComponent cand = Inr True
                   \<and> node_id cand = node_id m)) (nodes a)"
    by (simp only: eq)
  finally have "nodes ?a' = filter (\<lambda>m. node_id m \<noteq> node_id n
           \<and> \<not> (\<exists>c \<in> set (richTextCodenames env n). \<exists>cand.
                   candidateFor (kontentItemNodesOf env a) n c = Some cand
                   \<and> isContentComponent cand = Inr True
                   \<and> node_id cand = node_id m)) (nodes a)" .
  with h g show ?thesis by blast
qed

theorem delete_absent_cascade_witness:
  "item (loadKontentItem (ex_env ex_fetch_none) (item_id (ex_item ''i1'' ''en'')) ''en'') = None
   \<and> getNode (createNodeId (getKontentItemNodeStringForId
                 (toTemplateString (item_id (ex_item ''i1'' ''en''))) ''en''))
        (ex_api (ex_body [ex_item ''i1'' ''en'']
                   (ex_message ''delivery_preview'' (JString ''archive'')))
           [ex_home, ex_teaser, ex_linked, ex_promo_cs, ex_other]) = Some ex_home
   \<and> (\<exists>ids' a'. deleteLanguage (ex_env ex_fetch_none) (ex_cfg [''en'']) (ex_item ''i1'' ''en'')
          ''en''
          ([], ex_api (ex_body [ex_item ''i1'' ''en'']
                   (ex_message ''delivery_preview'' (JString ''archive'')))
             [ex_home, ex_teaser, ex_linked, ex_promo_cs, ex_other]) = Inr (ids', a')
        \<and> getNode (node_id ex_home) a' = None
        \<and> nodes a' = [ex_linked, ex_promo_cs, ex_other])"
proof -
  let ?env = "ex_env ex_fetch_none" and ?info = "ex_item ''i1'' ''en''"
  let ?a = "ex_api (ex_body [ex_item ''i1'' ''en'']
                   (ex_message ''delivery_preview'' (JString ''archive'')))
             [ex_home, ex_teaser, ex_linked, ex_promo_cs, ex_other]"
  have h1: "item (loadKontentItem ?env (item_id ?info) ''en'') = None"
    by (simp add: ex_defs)
  have h2: "getNode (createNodeId (getKontentItemNodeStringForId
                 (toTemplateString (item_id ?info)) ''en'')) ?a = Some ex_home"
    by (simp add: run_defs ex_defs ex_node_defs)
  have cs: "richTextCodenames ?env ex_home = [''teaser'', ''promo'', ''linked'']"
    by (simp add: richTextCodenames_def ex_defs ex_node_defs)
  have k: "kontentItemNodesOf ?env ?a = [ex_home, ex_teaser, ex_linked, ex_promo_cs, ex_other]"
    by (simp add: kontentItemNodesOf_def run_defs ex_defs ex_node_defs)
  have c1: "candidateFor [ex_home, ex_teaser, ex_linked, ex_promo_cs, ex_other] ex_home ''teaser''
      = Some ex_teaser"
    by (simp add: candidateFor_def ex_defs ex_node_defs)
  have c2: "candidateFor [ex_home, ex_teaser, ex_linked, ex_promo_cs, ex_other] ex_home ''promo''
      = None"
    by (simp add: candidateFor_def ex_defs ex_node_defs)
  have c3: "candidateFor [ex_home, ex_teaser, ex_linked, ex_promo_cs, ex_other] ex_home ''linked''
      = Some ex_linked"
    by (simp add: candidateFor_def ex_defs ex_node_defs)
  have i1: "isContentComponent ex_teaser = Inr True"
    by (simp add: isContentComponent_def substring_def ex_defs ex_node_defs)
  have i2: "isContentComponent ex_linked = Inr False"
    by (simp add: isContentComponent_def substring_def ex_defs ex_node_defs)
  have ids: "node_id ex_home = NodeId (ItemNodeString ''i1'' ''en'')"
    "node_id ex_teaser = NodeId (ItemNodeString ''aaaaaaaa-aaaa-01aa-aaaa-aaaaaaaaaaaa'' ''en'')"
    "node_id ex_linked = NodeId (ItemNodeString ''bbbbbbbb-bbbb-4bbb-bbbb-bbbbbbbbbbbb'' ''en'')"
    "node_id ex_promo_cs = NodeId (ItemNodeString ''cccccccc-cccc-01cc-cccc-cccccccccccc'' ''cs'')"
    "node_id ex_other = NodeId (ItemNodeString ''dddddddd-dddd-01dd-dddd-dddddddddddd'' ''en'')"
    by (simp_all add: ex_node_def ex_node_defs)
  from delete_absent_cascade [OF h1 h2, of "ex_cfg [''en'']" "[]"]
  obtain ids' a' where r: "deleteLanguage ?env (ex_cfg [''en'']) ?info ''en'' ([], ?a) = Inr (ids', a')"
    and g: "getNode (node_id ex_home) a' = None"
    and n: "nodes a' = filter (\<lambda>m. node_id m \<noteq> node_id ex_home
           \<and> \<not> (\<exists>c \<in> set (richTextCodenames ?env ex_home). \<exists>cand.
                   candidateFor (kontentItemNodesOf ?env ?a) ex_home c = Some cand
                   \<and> isContentComponent cand = Inr True
                   \<and> node_id cand = node_id m)) (nodes ?a)"
    by blast
  have "nodes ?a = [ex_home, ex_teaser, ex_linked, ex_promo_cs, ex_other]"
    by (simp add: ex_api_def)
  with n have "nodes a' = [ex_linked, ex_promo_cs, ex_other]"
    unfolding cs k by (simp add: c1 c2 c3 i1 i2 ids)
  with r g h1 h2 show ?thesis by blast
qed

text \<open>
  C4 as stated fails: the store holds two item nodes of the codename \<open>teaser\<close> tagged
  \<open>en\<close>. The first is not a component, so nothing is deleted for that codename, and the
  second, which is a component with the matching codename and marker, is retained.
\<close>

theorem delete_first_match_counterexample:
  "isContentComponent ex_teaser = Inr True
   \<and> map_option system_codename (node_system ex_teaser) = Some ''teaser''
   \<and> node_preferred_language ex_teaser = node_preferred_language ex_home
   \<and> richTextCodenames (ex_env ex_fetch_none) ex_home = [''teaser'', ''promo'', ''linked'']
   \<and> handleDeleteItem (ex_env ex_fetch_none) (ex_cfg [''en''])
        (ex_api (ex_body [ex_item ''i1'' ''en'']
                   (ex_message ''delivery_preview'' (JString ''archive'')))
           [ex_home, ex_teaser_plain, ex_teaser])
      = Inr ([node_id ex_home],
          \<lparr>webhookBody = Some (ex_body [ex_item ''i1'' ''en'']
                                (ex_message ''delivery_preview'' (JString ''archive''))),
           nodes = [ex_teaser_plain, ex_teaser],
           actions = [DeleteNode ex_home], reporter = []\<rparr>)"
  by (simp add: run_defs ex_defs ex_node_defs richTextCodenames_def)

text \<open>
  One turn of the loop for a language for which the fetcher returns a snapshot of the item:
  the snapshot and every entry of its modular content are created as nodes tagged with the
  language, the node of the item and the language is stored afterwards, the only calls on
  \<open>api.actions\<close> are these creations, and no id leaves the store.
\<close>

lemma deleteLanguage_recreates:
  assumes "loadKontentItem env (item_id itemInfo) L = \<lparr>item = Some s, modularKontent = mk\<rparr>"
    and "item_id itemInfo = JString I" and "system_id (system s) = I"
  shows "\<exists>a'. deleteLanguage env cfg itemInfo L (ids, a)
            = Inr (ids @ map node_id (createdNodes env cfg L s mk), a')
     \<and> actions a' = actions a @ map CreateNode (createdNodes env cfg L s mk)
     \<and> createdNodes env cfg L s mk
         = nodeFor env cfg L s # map (\<lambda>(key, m). nodeFor env cfg L m) mk
     \<and> node_id (nodeFor env cfg L s) = createNodeId (getKontentItemNodeStringForId I L)
     \<and> getNode (createNodeId (getKontentItemNodeStringForId I L)) a' \<noteq> None
     \<and> (\<forall>n \<in> set (createdNodes env cfg L s mk). node_preferred_language n = Some L)
     \<and> node_id ` set (nodes a')
         = node_id ` set (nodes a) \<union> node_id ` set (createdNodes env cfg L s mk)"
proof -
  let ?C = "createdNodes env cfg L s mk"
  let ?a' = "a\<lparr>nodes := fold putNode ?C (nodes a), actions := actions a @ map CreateNode ?C\<rparr>"
  have h: "deleteLanguage env cfg itemInfo L (ids, a) = Inr (ids @ map node_id ?C, ?a')"
    using assms(1) by (rule deleteLanguage_present)
  have i: "node_id (nodeFor env cfg L s) = createNodeId (getKontentItemNodeStringForId I L)"
    by (simp add: node_id_nodeFor assms(3))
  have c: "?C = nodeFor env cfg L s # map (\<lambda>(key, m). nodeFor env cfg L m) mk"
    by (simp add: createdNodes_def)
  have "nodeFor env cfg L s \<in> set ?C" by (simp add: createdNodes_def)
  then have "node_id (nodeFor env cfg L s) \<in> node_id ` set (nodes ?a')"
    by (simp add: fold_putNode_ids)
  then have g: "getNode (createNodeId (getKontentItemNodeStringForId I L)) ?a' \<noteq> None"
    unfolding i by (simp add: getNode_None_iff)
  have l: "\<forall>n \<in> set ?C. node_preferred_language n = Some L"
    by (auto simp: createdNodes_def preferred_language_nodeFor)
  have k: "node_id ` set (nodes ?a') = node_id ` set (nodes a) \<union> node_id ` set ?C"
    by (auto simp: fold_putNode_ids)
  have acts: "actions ?a' = actions a @ map CreateNode ?C" by simp
  show ?thesis
    apply (rule exI [of _ ?a'])
    apply (intro conjI)
          apply (rule h)
         apply (rule acts)
        apply (rule c)
       apply (rule i)
      apply (rule g)
     apply (rule l)
    apply (rule k)
    done
qed

text \<open>
  C5. For a Delete-classified event and a configured language for which the fetcher returns a
  snapshot, the node of the item and that language is to be recreated. Here \<open>cs\<close> and
  \<open>en\<close> are configured in this order, the event is for \<open>en\<close>, the fetcher has a snapshot
  for \<open>en\<close> and none for \<open>cs\<close>, and the store has the node of \<open>en\<close> only. The turn of
  \<open>cs\<close> throws at the read of \<open>elements\<close>, the turn of \<open>en\<close> is never run, and the
  stored node is left as it was: \<open>handleDeleteItem\<close> creates nothing.
\<close>

theorem delete_fallback_turn_not_reached:
  "item (ex_fetch_en (JString ''i1'') ''en'') = Some (ex_kontent_item ''i1'' ''home'' [])
   \<and> handleDeleteItem (ex_env ex_fetch_en) (ex_cfg [''cs'', ''en''])
        (ex_api (ex_body [ex_item ''i1'' ''en'']
                   (ex_message ''delivery_production'' (JString ''unpublish''))) [ex_home])
      = Inl (TypeError,
          \<lparr>webhookBody = Some (ex_body [ex_item ''i1'' ''en'']
                                (ex_message ''delivery_production'' (JString ''unpublish''))),
           nodes = [ex_home], actions = [], reporter = []\<rparr>)
   \<and> handleIncomingWebhook (ex_env ex_fetch_en) (ex_cfg [''cs'', ''en''])
        [''kontent_item_article'']
        (ex_api (ex_body [ex_item ''i1'' ''en'']
                   (ex_message ''delivery_production'' (JString ''unpublish''))) [ex_home])
      = Inl (TypeError,
          \<lparr>webhookBody = Some (ex_body [ex_item ''i1'' ''en'']
                                (ex_message ''delivery_production'' (JString ''unpublish''))),
           nodes = [ex_home], actions = [],
           reporter = [(VerboseLevel,
             Handling (JString ''unpublish'') (JString ''delivery_production''))]\<rparr>)"
  by (simp add: entry_defs run_defs ex_defs ex_node_defs)

subsection \<open>Running an upsert event twice\<close>

lemma parseKontentWebhookBody_cong:
  "webhookBody b = webhookBody a \<Longrightarrow> parseKontentWebhookBody b = parseKontentWebhookBody a"
  by (simp add: parseKontentWebhookBody_def)

lemma announced_fields:
  "webhookBody (announced m its a) = webhookBody a" "nodes (announced m its a) = nodes a"
  by (simp_all add: announced_def verbose_def warn_def Let_def)

lemma handleUpsertItem_nodes:
  assumes "handleUpsertItem env cfg a = Inr (ids, a')"
  shows "webhookBody a' = webhookBody a
       \<and> (\<exists>C. nodes a' = fold putNode C (nodes a)
              \<and> (\<forall>b. webhookBody b = webhookBody a \<longrightarrow>
                     (\<exists>b'. handleUpsertItem env cfg b = Inr (ids, b')
                         \<and> webhookBody b' = webhookBody a
                         \<and> nodes b' = fold putNode C (nodes b))))"
proof (cases "firstItem a")
  case (Inl e)
  with assms show ?thesis by (simp add: handleUpsertItem_def)
next
  case (Inr info)
  show ?thesis
  proof (cases "includes_js (languageCodenames cfg) (item_language info)")
    case False
    from assms have a': "a' = verbose (LanguageNotConfigured (item_language info)) a"
      and ids: "ids = []"
      by (simp_all add: handleUpsertItem_guard [OF Inr False])
    have "\<exists>b'. handleUpsertItem env cfg b = Inr (ids, b')
             \<and> webhookBody b' = webhookBody a \<and> nodes b' = fold putNode [] (nodes b)"
      if "webhookBody b = webhookBody a" for b
    proof -
      from that Inr have "firstItem b = Inr info" by (simp add: firstItem_def)
      from handleUpsertItem_guard [OF this False, of env] that show ?thesis
        by (simp add: ids verbose_def)
    qed
    moreover have "nodes a' = fold putNode [] (nodes a)" "webhookBody a' = webhookBody a"
      by (simp_all add: a' verbose_def)
    ultimately show ?thesis by blast
  next
    case True
    let ?C = "upsertCreated env cfg info (languageCodenames cfg)"
    from assms have ids: "ids = map node_id ?C" and n: "nodes a' = fold putNode ?C (nodes a)"
      and w: "webhookBody a' = webhookBody a"
      by (auto simp: handleUpsertItem_eq [OF Inr True])
    have "\<exists>b'. handleUpsertItem env cfg b = Inr (ids, b')
             \<and> webhookBody b' = webhookBody a \<and> nodes b' = fold putNode ?C (nodes b)"
      if "webhookBody b = webhookBody a" for b
    proof -
      from that Inr have "firstItem b = Inr info" by (simp add: firstItem_def)
      from handleUpsertItem_eq [OF this True, of env] that show ?thesis
        by (simp add: ids)
    qed
    with n w show ?thesis by blast
  qed
qed

lemma touchPropagation_fields:
  "webhookBody (touchPropagation env cfg ts P a) = webhookBody a"
  "nodes (touchPropagation env cfg ts P a) = nodes a"
  by (simp_all add: touchPropagation_eq)

lemma handleIncomingWebhook_twice:
  assumes p: "parseKontentWebhookBody a = Inr (Some w)" and m: "message w = Some m"
    and u: "upsertClassified m"
    and r: "handleIncomingWebhook env cfg types a = Inr ((), b1)"
  shows "\<exists>b2. handleIncomingWebhook env cfg types b1 = Inr ((), b2) \<and> nodes b2 = nodes b1"
proof (cases "isKontentSupportedWebhook m (projectId cfg)")
  case False
  with p m r have b1: "b1 = verbose WebhookNotHandled a"
    by (simp add: handleIncomingWebhook_def)
  then have "parseKontentWebhookBody b1 = Inr (Some w)"
    using p by (simp add: parseKontentWebhookBody_def verbose_def)
  with m False show ?thesis by (simp add: handleIncomingWebhook_def verbose_def)
next
  case True
  from p obtain its where its: "chain_items (Some w) = ItemsArray its"
    by (auto simp: parseKontentWebhookBody_Some_iff)
  note h = handleIncomingWebhook_upsert [OF _ m True its u, of _ env types]
  from r h [OF p] obtain ids a3
    where a3: "handleUpsertItem env cfg (announced m its a) = Inr (ids, a3)"
      and b1: "b1 = touchPropagation env cfg types [] a3"
    by (auto split: sum.splits)
  from handleUpsertItem_nodes [OF a3] obtain C
    where w3: "webhookBody a3 = webhookBody a"
      and n3: "nodes a3 = fold putNode C (nodes a)"
      and again': "\<forall>b. webhookBody b = webhookBody a \<longrightarrow>
                     (\<exists>b'. handleUpsertItem env cfg b = Inr (ids, b')
                         \<and> webhookBody b' = webhookBody a
                         \<and> nodes b' = fold putNode C (nodes b))"
    unfolding announced_fields by blast
  have again: "\<exists>b'. handleUpsertItem env cfg b = Inr (ids, b')
                         \<and> nodes b' = fold putNode C (nodes b)"
    if "webhookBody b = webhookBody a" for b
    using again' that by blast
  have wb1: "webhookBody b1 = webhookBody a" by (simp add: b1 touchPropagation_fields w3)
  have nb1: "nodes b1 = fold putNode C (nodes a)" by (simp add: b1 touchPropagation_fields n3)
  have p1: "parseKontentWebhookBody b1 = Inr (Some w)"
    using parseKontentWebhookBody_cong [OF wb1] p by simp
  from again [of "announced m its b1"] obtain a4
    where a4: "handleUpsertItem env cfg (announced m its b1) = Inr (ids, a4)"
      and n4: "nodes a4 = fold putNode C (nodes b1)"
    by (auto simp: announced_fields wb1)
  from h [OF p1] a4
  have "handleIncomingWebhook env cfg types b1 = Inr ((), touchPropagation env cfg types [] a4)"
    by simp
  moreover have "nodes (touchPropagation env cfg types [] a4) = nodes b1"
    by (simp add: touchPropagation_fields n4 nb1 fold_putNode_idem)
  ultimately show ?thesis by blast
qed

lemma ex_eval_entry:
  "handleIncomingWebhook (ex_env ex_fetch_home) (ex_cfg [''en'', ''cs''])
     [''kontent_item_article'']
     (ex_api (ex_body [ex_item ''i1'' ''en''] (ex_message ''delivery_preview'' (JString ''upsert''))) [])
   = Inr ((),
          \<lparr>webhookBody = Some (ex_body [ex_item ''i1'' ''en''] (ex_message ''delivery_preview'' (JString ''upsert''))),
           nodes = [ex_node ''i1'' ''home'' ''en'' [], ex_node ''i2'' ''teaser'' ''en'' [],
                    ex_node ''i1'' ''home'' ''cs'' [], ex_node ''i2'' ''teaser'' ''cs'' []],
           actions = map CreateNode [ex_node ''i1'' ''home'' ''en'' [], ex_node ''i2'' ''teaser'' ''en'' [],
                    ex_node ''i1'' ''home'' ''cs'' [], ex_node ''i2'' ''teaser'' ''cs'' []],
           reporter = [(VerboseLevel, Handling (JString ''upsert'') (JString ''delivery_preview''))]\<rparr>)"
  by (simp add: entry_defs run_defs ex_defs)

text \<open>
  C9. Running \<open>handleUpsertItem\<close> a second time on the state the first run returned, for the
  same event and the same remote state, returns the same ids and leaves the node store as the
  first run left it; and so does a second run of \<open>handleIncomingWebhook\<close> for an event
  that is dispatched to the upsert handler.
\<close>

theorem upsert_twice_same_nodes:
  "(handleUpsertItem env cfg a = Inr (ids1, a1)
      \<longrightarrow> (\<exists>a2. handleUpsertItem env cfg a1 = Inr (ids1, a2) \<and> nodes a2 = nodes a1))
   \<and> (parseKontentWebhookBody a = Inr (Some w) \<and> message w = Some m \<and> upsertClassified m
        \<and> handleIncomingWebhook env cfg itemTypes a = Inr ((), b1)
      \<longrightarrow> (\<exists>b2. handleIncomingWebhook env cfg itemTypes b1 = Inr ((), b2)
             \<and> nodes b2 = nodes b1))"
proof (intro conjI impI)
  assume "handleUpsertItem env cfg a = Inr (ids1, a1)"
  then show "\<exists>a2. handleUpsertItem env cfg a1 = Inr (ids1, a2) \<and> nodes a2 = nodes a1"
    by (rule handleUpsertItem_twice)
next
  assume h: "parseKontentWebhookBody a = Inr (Some w) \<and> message w = Some m \<and> upsertClassified m
        \<and> handleIncomingWebhook env cfg itemTypes a = Inr ((), b1)"
  then have "parseKontentWebhookBody a = Inr (Some w)" "message w = Some m" "upsertClassified m"
    "handleIncomingWebhook env cfg itemTypes a = Inr ((), b1)" by simp_all
  then show "\<exists>b2. handleIncomingWebhook env cfg itemTypes b1 = Inr ((), b2)
             \<and> nodes b2 = nodes b1"
    by (rule handleIncomingWebhook_twice)
qed

theorem upsert_twice_same_nodes_witness:
  "handleUpsertItem (ex_env ex_fetch_home) (ex_cfg [''en'', ''cs''])
     (ex_api (ex_body [ex_item ''i1'' ''en''] (ex_message ''delivery_preview'' (JString ''upsert''))) [])
   = Inr ([NodeId (ItemNodeString ''i1'' ''en''), NodeId (ItemNodeString ''i2'' ''en''),
           NodeId (ItemNodeString ''i1'' ''cs''), NodeId (ItemNodeString ''i2'' ''cs'')],
          \<lparr>webhookBody = Some (ex_body [ex_item ''i1'' ''en''] (ex_message ''delivery_preview'' (JString ''upsert''))),
           nodes = [ex_node ''i1'' ''home'' ''en'' [], ex_node ''i2'' ''teaser'' ''en'' [],
                    ex_node ''i1'' ''home'' ''cs'' [], ex_node ''i2'' ''teaser'' ''cs'' []],
           actions = map CreateNode [ex_node ''i1'' ''home'' ''en'' [], ex_node ''i2'' ''teaser'' ''en'' [],
                    ex_node ''i1'' ''home'' ''cs'' [], ex_node ''i2'' ''teaser'' ''cs'' []],
           reporter = []\<rparr>)
   \<and> (\<exists>a2. handleUpsertItem (ex_env ex_fetch_home) (ex_cfg [''en'', ''cs''])
          \<lparr>webhookBody = Some (ex_body [ex_item ''i1'' ''en''] (ex_message ''delivery_preview'' (JString ''upsert''))),
           nodes = [ex_node ''i1'' ''home'' ''en'' [], ex_node ''i2'' ''teaser'' ''en'' [],
                    ex_node ''i1'' ''home'' ''cs'' [], ex_node ''i2'' ''teaser'' ''cs'' []],
           actions = map CreateNode [ex_node ''i1'' ''home'' ''en'' [], ex_node ''i2'' ''teaser'' ''en'' [],
                    ex_node ''i1'' ''home'' ''cs'' [], ex_node ''i2'' ''teaser'' ''cs'' []],
           reporter = []\<rparr>
        = Inr ([NodeId (ItemNodeString ''i1'' ''en''), NodeId (ItemNodeString ''i2'' ''en''),
           NodeId (ItemNodeString ''i1'' ''cs''), NodeId (ItemNodeString ''i2'' ''cs'')], a2)
        \<and> nodes a2 = [ex_node ''i1'' ''home'' ''en'' [], ex_node ''i2'' ''teaser'' ''en'' [],
                    ex_node ''i1'' ''home'' ''cs'' [], ex_node ''i2'' ''teaser'' ''cs'' []])
   \<and> upsertClassified (ex_message ''delivery_preview'' (JString ''upsert''))
   \<and> (\<exists>b2. handleIncomingWebhook (ex_env ex_fetch_home) (ex_cfg [''en'', ''cs''])
          [''kontent_item_article'']
          \<lparr>webhookBody = Some (ex_body [ex_item ''i1'' ''en''] (ex_message ''delivery_preview'' (JString ''upsert''))),
           nodes = [ex_node ''i1'' ''home'' ''en'' [], ex_node ''i2'' ''teaser'' ''en'' [],
                    ex_node ''i1'' ''home'' ''cs'' [], ex_node ''i2'' ''teaser'' ''cs'' []],
           actions = map CreateNode [ex_node ''i1'' ''home'' ''en'' [], ex_node ''i2'' ''teaser'' ''en'' [],
                    ex_node ''i1'' ''home'' ''cs'' [], ex_node ''i2'' ''teaser'' ''cs'' []],
           reporter = [(VerboseLevel, Handling (JString ''upsert'') (JString ''delivery_preview''))]\<rparr>
        = Inr ((), b2)
        \<and> nodes b2 = [ex_node ''i1'' ''home'' ''en'' [], ex_node ''i2'' ''teaser'' ''en'' [],
                    ex_node ''i1'' ''home'' ''cs'' [], ex_node ''i2'' ''teaser'' ''cs'' []])"
proof -
  let ?m = "ex_message ''delivery_preview'' (JString ''upsert'')"
  let ?b = "ex_body [ex_item ''i1'' ''en''] ?m"
  let ?a = "ex_api ?b []"
  have p: "parseKontentWebhookBody ?a = Inr (Some ?b)"
    by (simp add: parseKontentWebhookBody_def chain_items_def chain_message_def truthy_def
        itemsEvery_def ex_defs)
  have m: "message ?b = Some ?m" by (simp add: ex_body_def)
  have u: "upsertClassified ?m" by (simp add: upsertClassified_def ex_message_def)
  note h1 = ex_eval_upsert and h2 = ex_eval_entry
  note t = upsert_twice_same_nodes [of "ex_env ex_fetch_home" "ex_cfg [''en'', ''cs'']" ?a _ _
      ?b ?m "[''kontent_item_article'']"]
  from t h1 have r1: "\<exists>a2. handleUpsertItem (ex_env ex_fetch_home) (ex_cfg [''en'', ''cs''])
          \<lparr>webhookBody = Some ?b,
           nodes = [ex_node ''i1'' ''home'' ''en'' [], ex_node ''i2'' ''teaser'' ''en'' [],
                    ex_node ''i1'' ''home'' ''cs'' [], ex_node ''i2'' ''teaser'' ''cs'' []],
           actions = map CreateNode [ex_node ''i1'' ''home'' ''en'' [], ex_node ''i2'' ''teaser'' ''en'' [],
                    ex_node ''i1'' ''home'' ''cs'' [], ex_node ''i2'' ''teaser'' ''cs'' []],
           reporter = []\<rparr>
        = Inr ([NodeId (ItemNodeString ''i1'' ''en''), NodeId (ItemNodeString ''i2'' ''en''),
           NodeId (ItemNodeString ''i1'' ''cs''), NodeId (ItemNodeString ''i2'' ''cs'')], a2)
        \<and> nodes a2 = [ex_node ''i1'' ''home'' ''en'' [], ex_node ''i2'' ''teaser'' ''en'' [],
                    ex_node ''i1'' ''home'' ''cs'' [], ex_node ''i2'' ''teaser'' ''cs'' []]"
    by fastforce
  from t p m u h2 have r2: "\<exists>b2. handleIncomingWebhook (ex_env ex_fetch_home) (ex_cfg [''en'', ''cs''])
          [''kontent_item_article'']
          \<lparr>webhookBody = Some ?b,
           nodes = [ex_node ''i1'' ''home'' ''en'' [], ex_node ''i2'' ''teaser'' ''en'' [],
                    ex_node ''i1'' ''home'' ''cs'' [], ex_node ''i2'' ''teaser'' ''cs'' []],
           actions = map CreateNode [ex_node ''i1'' ''home'' ''en'' [], ex_node ''i2'' ''teaser'' ''en'' [],
                    ex_node ''i1'' ''home'' ''cs'' [], ex_node ''i2'' ''teaser'' ''cs'' []],
           reporter = [(VerboseLevel, Handling (JString ''upsert'') (JString ''delivery_preview''))]\<rparr>
        = Inr ((), b2)
        \<and> nodes b2 = [ex_node ''i1'' ''home'' ''en'' [], ex_node ''i2'' ''teaser'' ''en'' [],
                    ex_node ''i1'' ''home'' ''cs'' [], ex_node ''i2'' ''teaser'' ''cs'' []]"
    by fastforce
  from h1 r1 u r2 show ?thesis by blast
qed

end
